theory Spec2Isabelle
  imports Complex_Main "HOL-Library.Multiset" "HOL-Library.Sublist"
begin

section \<open>JavaScript values used by the map application\<close>

text \<open>
  The application (src/App.js and CustomSearch.js) is a React program over GeoJSON data.
  Feature objects are shared by reference between the datasets held in the App state, the
  search index of CustomSearch and the selection (openPopupFeature), and SchoolLayer
  writes to them while rendering.  The model therefore keeps the objects in an explicit
  store: an address stands for a JavaScript reference, and every dataset, search item and
  selection holds addresses.  A reference always denotes an object, so the store is a
  total function.
\<close>

datatype js_error = TypeError

type_synonym addr = nat

text \<open>The \<open>__key\<close> field of a feature object: absent, a number (an array index) or a string.\<close>

datatype jskey = KeyUndefined | KeyNum nat | KeyStr string

text \<open>
  Property values that the code reads as names are strings or absent (\<open>None\<close> stands for
  \<open>undefined\<close>/\<open>null\<close>).  \<open>tags\<close> is an optional object with an optional \<open>name\<close>.
\<close>

record properties =
  KGISWardName :: "string option"
  tags :: "string option option"
  name :: "string option"
  TreeName :: "string option"

text \<open>
  \<open>geometry.type\<close> and \<open>geometry.coordinates\<close>.  The embedded code reads coordinates only
  of Point geometries (their length and the entries 0 and 1); for every other geometry it
  only tests that the array is present, so the array of numbers is all that is kept.
\<close>

record geometry =
  gtype :: string
  coordinates :: "real list option"

record feature =
  properties :: "properties option"
  geometry :: "geometry option"
  key :: jskey

type_synonym store = "addr \<Rightarrow> feature"

text \<open>A FeatureCollection as held in \<open>wardData\<close>, \<open>schoolData\<close> and \<open>treeData\<close>.\<close>

record feature_collection =
  fc_type :: string
  features :: "addr list"

subsection \<open>String built-ins\<close>

text \<open>
  \<open>String.prototype.toLowerCase\<close>, \<open>includes\<close>, \<open>startsWith\<close> and \<open>trim\<close> on strings whose
  code units are below 256 (Latin-1): the capital letters are A to Z and the code units 192
  to 222 without 215; the white space that \<open>trim\<close> removes is the code units 9 to 13, 32
  and 160.
\<close>

definition lower_char :: "char \<Rightarrow> char" where
  "lower_char c =
     (let n = (of_char c :: nat)
      in if (65 \<le> n \<and> n \<le> 90) \<or> (192 \<le> n \<and> n \<le> 222 \<and> n \<noteq> 215) then char_of (n + 32)
         else c)"

definition toLowerCase :: "string \<Rightarrow> string" where
  "toLowerCase s = map lower_char s"

fun includes_str :: "string \<Rightarrow> string \<Rightarrow> bool" where
  "includes_str [] q = (q = [])"
| "includes_str (c # cs) q = (prefix q (c # cs) \<or> includes_str cs q)"

definition startsWith :: "string \<Rightarrow> string \<Rightarrow> bool" where
  "startsWith s p = prefix p s"

definition is_space :: "char \<Rightarrow> bool" where
  "is_space c = (let n = (of_char c :: nat) in n = 32 \<or> (9 \<le> n \<and> n \<le> 13) \<or> n = 160)"

definition trim :: "string \<Rightarrow> string" where
  "trim s = rev (dropWhile is_space (rev (dropWhile is_space s)))"

text \<open>
  \<open>a || b\<close> where \<open>a\<close> is a string or undefined (the empty string is falsy), with \<open>b\<close>
  another such value or a string literal.
\<close>

definition truthy :: "string option \<Rightarrow> bool" where
  "truthy v = (case v of None \<Rightarrow> False | Some s \<Rightarrow> s \<noteq> [])"

definition or_else :: "string option \<Rightarrow> string option \<Rightarrow> string option" where
  "or_else a b = (if truthy a then a else b)"

definition or_literal :: "string option \<Rightarrow> string \<Rightarrow> string" where
  "or_literal a b = (case a of None \<Rightarrow> b | Some s \<Rightarrow> if s = [] then b else s)"

section \<open>CustomSearch: the search index and the query effect\<close>

text \<open>
  \<open>L.geoJSON(feature).getBounds()\<close> is computed by Leaflet from the feature; the model
  keeps it symbolic.
\<close>

datatype latlng_bounds = GeoJSONBounds addr

record item =
  item_type :: string
  item_name :: string
  item_feature :: addr
  latlng :: "(real option \<times> real option) option"
  bounds :: "latlng_bounds option"

text \<open>\<open>feature.properties?.KGISWardName\<close>\<close>

definition wardNameProp :: "feature \<Rightarrow> string option" where
  "wardNameProp f = (case properties f of None \<Rightarrow> None | Some p \<Rightarrow> KGISWardName p)"

text \<open>\<open>feature.properties?.KGISWardName || "Unnamed Ward"\<close>\<close>

definition wardName :: "feature \<Rightarrow> string" where
  "wardName f = or_literal (wardNameProp f) ''Unnamed Ward''"

text \<open>\<open>feature.properties?.tags?.name || feature.properties?.name || "Unnamed School"\<close>\<close>

definition tagsNameProp :: "feature \<Rightarrow> string option" where
  "tagsNameProp f =
     (case properties f of None \<Rightarrow> None
      | Some p \<Rightarrow> (case tags p of None \<Rightarrow> None | Some n \<Rightarrow> n))"

definition nameProp :: "feature \<Rightarrow> string option" where
  "nameProp f = (case properties f of None \<Rightarrow> None | Some p \<Rightarrow> name p)"

definition schoolName :: "feature \<Rightarrow> string" where
  "schoolName f = or_literal (or_else (tagsNameProp f) (nameProp f)) ''Unnamed School''"

text \<open>\<open>feature.geometry?.coordinates\<close> and \<open>feature.geometry?.type\<close>\<close>

definition coordsOf :: "feature \<Rightarrow> real list option" where
  "coordsOf f = (case geometry f of None \<Rightarrow> None | Some g \<Rightarrow> coordinates g)"

definition geomType :: "feature \<Rightarrow> string option" where
  "geomType f = (case geometry f of None \<Rightarrow> None | Some g \<Rightarrow> Some (gtype g))"

text \<open>Array indexing \<open>a[i]\<close>: \<open>undefined\<close> out of range.\<close>

definition nth_opt :: "'a list \<Rightarrow> nat \<Rightarrow> 'a option" where
  "nth_opt xs i = (if i < length xs then Some (xs ! i) else None)"

text \<open>The object pushed for a ward feature, and the body of \<open>wardsData.features.forEach\<close>.\<close>

definition wardItem :: "store \<Rightarrow> addr \<Rightarrow> item" where
  "wardItem h a =
     \<lparr> item_type = ''Ward'', item_name = wardName (h a), item_feature = a,
       latlng = None, bounds = Some (GeoJSONBounds a) \<rparr>"

definition pushWard :: "store \<Rightarrow> item list \<Rightarrow> addr \<Rightarrow> item list" where
  "pushWard h acc a = acc @ [wardItem h a]"

text \<open>
  The object pushed for a school feature with coordinates \<open>coords\<close>, and the body of
  \<open>schoolsData.features.forEach\<close>: a push only under the guard
  \<open>coords && feature.geometry.type === "Point"\<close>.
\<close>

definition schoolItem :: "store \<Rightarrow> addr \<Rightarrow> real list \<Rightarrow> item" where
  "schoolItem h a coords =
     \<lparr> item_type = ''School'', item_name = schoolName (h a), item_feature = a,
       latlng = Some (nth_opt coords 1, nth_opt coords 0), bounds = None \<rparr>"

definition pushSchool :: "store \<Rightarrow> item list \<Rightarrow> addr \<Rightarrow> item list" where
  "pushSchool h acc a =
     (case coordsOf (h a) of
        None \<Rightarrow> acc
      | Some coords \<Rightarrow>
          if geomType (h a) = Some ''Point'' then acc @ [schoolItem h a coords] else acc)"

text \<open>
  \<open>searchableItems\<close> as CustomSearch builds it on every render.  The component
  destructures only \<open>wardsData\<close>, \<open>schoolsData\<close> and \<open>onSelectFeature\<close> from its props; the
  \<open>treeData\<close> prop that App passes is accepted here and, as in the source, never read.
\<close>

definition searchableItems ::
  "store \<Rightarrow> feature_collection option \<Rightarrow> feature_collection option \<Rightarrow>
   feature_collection option \<Rightarrow> item list" where
  "searchableItems h wardsData schoolsData treeData =
     (let items0 = [];
          items1 = (case wardsData of None \<Rightarrow> items0
                    | Some w \<Rightarrow> foldl (pushWard h) items0 (features w));
          items2 = (case schoolsData of None \<Rightarrow> items1
                    | Some s \<Rightarrow> foldl (pushSchool h) items1 (features s))
      in items2)"

text \<open>The predicate of \<open>searchableItems.filter\<close> in the query effect.\<close>

definition matches :: "string \<Rightarrow> item \<Rightarrow> bool" where
  "matches lowerQuery it = includes_str (toLowerCase (item_name it)) lowerQuery"

text \<open>
  The query effect: the value passed to \<open>setResults\<close> for a query, \<open>slice(0, 10)\<close> being
  \<open>take 10\<close>.
\<close>

definition queryEffect ::
  "store \<Rightarrow> feature_collection option \<Rightarrow> feature_collection option \<Rightarrow>
   feature_collection option \<Rightarrow> string \<Rightarrow> item list" where
  "queryEffect h wardsData schoolsData treeData query =
     (if length query = 0 then []
      else let lowerQuery = toLowerCase query;
               filtered = filter (matches lowerQuery)
                            (searchableItems h wardsData schoolsData treeData)
           in take 10 filtered)"

text \<open>
  The index in closed form, for stating properties: one item per ward feature, in dataset
  order, then one item per school feature that has coordinates and geometry type Point, in
  dataset order.
\<close>

definition schoolItemOf :: "store \<Rightarrow> addr \<Rightarrow> item option" where
  "schoolItemOf h a =
     (case coordsOf (h a) of
        None \<Rightarrow> None
      | Some coords \<Rightarrow>
          if geomType (h a) = Some ''Point'' then Some (schoolItem h a coords) else None)"

definition wardItems :: "store \<Rightarrow> feature_collection option \<Rightarrow> item list" where
  "wardItems h w = (case w of None \<Rightarrow> [] | Some fc \<Rightarrow> map (wardItem h) (features fc))"

definition schoolItems :: "store \<Rightarrow> feature_collection option \<Rightarrow> item list" where
  "schoolItems h s =
     (case s of None \<Rightarrow> [] | Some fc \<Rightarrow> List.map_filter (schoolItemOf h) (features fc))"

text \<open>
  \<open>onSelect\<close> hands \<open>item.feature\<close>, the reference held by the item, to \<open>onSelectFeature\<close>,
  which App binds to \<open>setOpenPopupFeature\<close>.
\<close>

definition onSelect :: "item \<Rightarrow> addr option" where
  "onSelect it = Some (item_feature it)"

section \<open>SchoolLayer: rendering writes \<open>__key\<close>\<close>

record marker =
  marker_key :: nat
  position :: "real \<times> real"
  popup_name :: string

text \<open>
  The callback of \<open>schoolData.features.map\<close> for the feature at address \<open>a\<close> and index
  \<open>idx\<close>: \<open>null\<close> unless the geometry is a Point with exactly two coordinates; otherwise
  \<open>feature.__key = idx\<close> is written to the object itself and a marker is returned.
\<close>

definition renderSchoolFeature :: "store \<Rightarrow> addr \<Rightarrow> nat \<Rightarrow> store \<times> marker option" where
  "renderSchoolFeature h a idx =
     (case coordsOf (h a) of
        None \<Rightarrow> (h, None)
      | Some coords \<Rightarrow>
          if geomType (h a) \<noteq> Some ''Point'' \<or> length coords \<noteq> 2 then (h, None)
          else (h(a := (h a)\<lparr>key := KeyNum idx\<rparr>),
                Some \<lparr> marker_key = idx, position = (coords ! 1, coords ! 0),
                       popup_name = schoolName (h a) \<rparr>))"

fun renderSchoolFeatures :: "store \<Rightarrow> addr list \<Rightarrow> nat \<Rightarrow> store \<times> marker option list" where
  "renderSchoolFeatures h [] idx = (h, [])"
| "renderSchoolFeatures h (a # as) idx =
     (case renderSchoolFeature h a idx of
        (h1, m) \<Rightarrow>
          (case renderSchoolFeatures h1 as (Suc idx) of (h2, ms) \<Rightarrow> (h2, m # ms)))"

text \<open>The render function of SchoolLayer: \<open>null\<close> when hidden or without data.\<close>

definition SchoolLayer ::
  "store \<Rightarrow> bool \<Rightarrow> feature_collection option \<Rightarrow> store \<times> marker option list option" where
  "SchoolLayer h visible schoolData =
     (case schoolData of
        None \<Rightarrow> (h, None)
      | Some sd \<Rightarrow>
          if \<not> visible then (h, None)
          else (case renderSchoolFeatures h (features sd) 0 of (h', ms) \<Rightarrow> (h', Some ms)))"

text \<open>The guard of \<open>renderSchoolFeature\<close>: the features that get a marker and a \<open>__key\<close>.\<close>

definition rendersMarker :: "store \<Rightarrow> addr \<Rightarrow> bool" where
  "rendersMarker h a =
     (case coordsOf (h a) of
        None \<Rightarrow> False
      | Some coords \<Rightarrow> geomType (h a) = Some ''Point'' \<and> length coords = 2)"

section \<open>App: state, toggleLayer and the data effects\<close>

datatype layerId = ward | schools | trees | dem

datatype request = WardFetch | SchoolFetch | TreeLoad

text \<open>
  The \<open>useState\<close> cells of App that the layers depend on, and the requests that have been
  issued and have not settled yet.
\<close>

record app_state =
  layersVisibility :: "layerId \<Rightarrow> bool"
  wardData :: "feature_collection option"
  schoolData :: "feature_collection option"
  treeData :: "feature_collection option"
  openPopupFeature :: "addr option"
  inflight :: "request list"

text \<open>
  A handler either returns or throws; in both cases the state updates it had already queued
  are applied.
\<close>

datatype 'a outcome = Returned 'a | Threw js_error 'a

fun outcome_state :: "'a outcome \<Rightarrow> 'a" where
  "outcome_state (Returned s) = s"
| "outcome_state (Threw e s) = s"


text \<open>\<open>openPopupFeature?.properties?.KGISWardName\<close>, as a condition.\<close>

definition wardGuard :: "store \<Rightarrow> addr option \<Rightarrow> bool" where
  "wardGuard h sel = (case sel of None \<Rightarrow> False | Some a \<Rightarrow> truthy (wardNameProp (h a)))"

text \<open>
  \<open>openPopupFeature.__key?.startsWith('tree-')\<close>: the optional chain stops only at an absent
  \<open>__key\<close>; a string has the method; a number has no \<open>startsWith\<close>, and calling the missing
  method throws a TypeError.
\<close>

definition keyStartsWithTree :: "jskey \<Rightarrow> js_error + bool option" where
  "keyStartsWithTree k =
     (case k of
        KeyUndefined \<Rightarrow> Inr None
      | KeyStr s \<Rightarrow> Inr (Some (startsWith s ''tree-''))
      | KeyNum n \<Rightarrow> Inl TypeError)"

text \<open>
  \<open>openPopupFeature?.geometry?.type === "Point" && !openPopupFeature.__key?.startsWith('tree-')\<close>
\<close>

definition schoolGuard :: "store \<Rightarrow> addr option \<Rightarrow> js_error + bool" where
  "schoolGuard h sel =
     (case sel of
        None \<Rightarrow> Inr False
      | Some a \<Rightarrow>
          if geomType (h a) = Some ''Point''
          then (case keyStartsWithTree (key (h a)) of
                  Inl e \<Rightarrow> Inl e
                | Inr r \<Rightarrow> Inr (r \<noteq> Some True))
          else Inr False)"

definition toggleLayer :: "store \<Rightarrow> layerId \<Rightarrow> app_state \<Rightarrow> app_state outcome" where
  "toggleLayer h l st =
     (let st1 = st\<lparr>layersVisibility := (layersVisibility st)(l := \<not> layersVisibility st l)\<rparr>
      in if l = ward \<and> wardGuard h (openPopupFeature st)
         then Returned (st1\<lparr>openPopupFeature := None\<rparr>)
         else if l = schools
         then (case schoolGuard h (openPopupFeature st) of
                 Inl e \<Rightarrow> Threw e st1
               | Inr clear \<Rightarrow>
                   Returned (if clear then st1\<lparr>openPopupFeature := None\<rparr> else st1))
         else Returned st1)"

text \<open>
  The effects.  The tree and school effects depend on their layer's visibility: hidden, they
  set the dataset to \<open>null\<close>; visible, they start a load.  The ward effect has an empty
  dependency array: it runs once on mount, whatever the visibility, and never again.
\<close>

definition treeEffect :: "app_state \<Rightarrow> app_state" where
  "treeEffect st =
     (if \<not> layersVisibility st trees then st\<lparr>treeData := None\<rparr>
      else st\<lparr>inflight := inflight st @ [TreeLoad]\<rparr>)"

definition schoolEffect :: "app_state \<Rightarrow> app_state" where
  "schoolEffect st =
     (if \<not> layersVisibility st schools then st\<lparr>schoolData := None\<rparr>
      else st\<lparr>inflight := inflight st @ [SchoolFetch]\<rparr>)"

definition wardEffect :: "app_state \<Rightarrow> app_state" where
  "wardEffect st = st\<lparr>inflight := inflight st @ [WardFetch]\<rparr>"

definition initialState :: app_state where
  "initialState =
     \<lparr> layersVisibility = (\<lambda>l. l = schools), wardData = None, schoolData = None,
       treeData = None, openPopupFeature = None, inflight = [] \<rparr>"

text \<open>Mounting App runs every effect once, in source order.\<close>

definition mount :: app_state where
  "mount = schoolEffect (wardEffect (treeEffect initialState))"

text \<open>
  What happens to App afterwards: the user toggles a layer (the handler runs, then the
  effect that depends on that layer's visibility), an issued request settles, or the user
  types a query into the search box and clicks the result at some position of the list
  (\<open>onSelect\<close> calls \<open>setOpenPopupFeature\<close>).  A request that fails settles with \<open>None\<close>: the
  error is logged and no state is set.
\<close>

datatype event =
    Toggle layerId
  | WardFetchSettled "feature_collection option"
  | SchoolFetchSettled "feature_collection option"
  | TreeLoadSettled feature_collection
  | Select string nat

definition settle ::
  "request \<Rightarrow> (app_state \<Rightarrow> app_state) \<Rightarrow> app_state \<Rightarrow> app_state" where
  "settle r upd st =
     (if r \<in> set (inflight st) then upd (st\<lparr>inflight := remove1 r (inflight st)\<rparr>) else st)"

fun step :: "store \<Rightarrow> event \<Rightarrow> app_state \<Rightarrow> app_state" where
  "step h (Toggle l) st =
     (let st1 = outcome_state (toggleLayer h l st)
      in if l = trees then treeEffect st1
         else if l = schools then schoolEffect st1
         else st1)"
| "step h (WardFetchSettled r) st =
     settle WardFetch (\<lambda>s. case r of None \<Rightarrow> s | Some fc \<Rightarrow> s\<lparr>wardData := Some fc\<rparr>) st"
| "step h (SchoolFetchSettled r) st =
     settle SchoolFetch (\<lambda>s. case r of None \<Rightarrow> s | Some fc \<Rightarrow> s\<lparr>schoolData := Some fc\<rparr>) st"
| "step h (TreeLoadSettled fc) st =
     settle TreeLoad (\<lambda>s. s\<lparr>treeData := Some fc\<rparr>) st"
| "step h (Select query i) st =
     (case nth_opt (queryEffect h (wardData st) (schoolData st) (treeData st) query) i of
        None \<Rightarrow> st
      | Some it \<Rightarrow> st\<lparr>openPopupFeature := onSelect it\<rparr>)"

definition run :: "store \<Rightarrow> event list \<Rightarrow> app_state \<Rightarrow> app_state" where
  "run h es st = foldl (\<lambda>s e. step h e s) st es"

text \<open>
  The render function of App evaluates the \<open>openPopupFeature\<close> prop of SchoolLayer with the
  guard that \<open>toggleLayer\<close> uses:
  \<open>openPopupFeature?.geometry?.type === "Point" && !openPopupFeature.__key?.startsWith('tree-')
  ? openPopupFeature : null\<close>.
\<close>

definition schoolLayerProp :: "store \<Rightarrow> addr option \<Rightarrow> js_error + addr option" where
  "schoolLayerProp h sel =
     (case schoolGuard h sel of
        Inl e \<Rightarrow> Inl e
      | Inr pass \<Rightarrow> Inr (if pass then sel else None))"

text \<open>
  App as a whole: it runs with a store and a state, or a render has thrown and React has
  unmounted it, after which no handler can be invoked.  A render of App evaluates the props
  of its children and then renders them, SchoolLayer among them, which writes to the store.
  Every event is followed by a render.
\<close>

datatype app = Running store app_state | Crashed

definition renderApp :: "store \<Rightarrow> app_state \<Rightarrow> app" where
  "renderApp h st =
     (case schoolLayerProp h (openPopupFeature st) of
        Inl e \<Rightarrow> Crashed
      | Inr prop \<Rightarrow>
          Running (fst (SchoolLayer h (layersVisibility st schools) (schoolData st))) st)"

fun appStep :: "event \<Rightarrow> app \<Rightarrow> app" where
  "appStep e Crashed = Crashed"
| "appStep e (Running h st) = renderApp h (step h e st)"

definition appRun :: "store \<Rightarrow> event list \<Rightarrow> app" where
  "appRun h es = foldl (\<lambda>a e. appStep e a) (renderApp h mount) es"






text \<open>The dataset a layer owns in the App state, and the request that loads it.\<close>

definition layerData :: "layerId \<Rightarrow> app_state \<Rightarrow> feature_collection option" where
  "layerData l st =
     (case l of ward \<Rightarrow> wardData st | schools \<Rightarrow> schoolData st | trees \<Rightarrow> treeData st
      | dem \<Rightarrow> None)"

definition requestOf :: "layerId \<Rightarrow> request list" where
  "requestOf l =
     (case l of ward \<Rightarrow> [WardFetch] | schools \<Rightarrow> [SchoolFetch] | trees \<Rightarrow> [TreeLoad]
      | dem \<Rightarrow> [])"

section \<open>loadTreeDataParts: the sharded tree census\<close>

text \<open>
  What one part's request can come to: \<open>fetch\<close> rejects; the response is not \<open>ok\<close> (the first
  \<open>then\<close> throws); \<open>res.json()\<close> rejects; or JSON data arrives.  The data is an object with a
  \<open>type\<close> and a \<open>features\<close> value that may or may not be an array, or it is \<open>null\<close> or
  some other non-object (\<open>None\<close>).
\<close>

record part_data =
  pd_type :: string
  pd_features :: "addr list option"

datatype part_response =
    FetchRejected
  | HttpNotOk nat
  | JsonRejected
  | Json "part_data option"

datatype log_entry = ConsoleWarn string | ConsoleError string

text \<open>
  \<open>`/data/tree_census_part_${String(i).padStart(4, '0')}.geojson`\<close>
\<close>

fun digits :: "nat \<Rightarrow> string" where
  "digits n =
     (if n < 10 then [char_of (48 + n)] else digits (n div 10) @ [char_of (48 + n mod 10)])"

declare digits.simps [simp del]

definition padStart :: "string \<Rightarrow> nat \<Rightarrow> char \<Rightarrow> string" where
  "padStart s n c = replicate (n - length s) c @ s"

definition fileName :: "nat \<Rightarrow> string" where
  "fileName i = ''/data/tree_census_part_'' @ padStart (digits i) 4 (CHR ''0'') @ ''.geojson''"

text \<open>
  The state the six promise chains share: the \<open>allFeatures\<close> array they push to, the
  console, the parts whose chain has not settled yet, and the arguments of the calls of
  \<open>setTreeData\<close> made so far.
\<close>

record load_state =
  allFeatures :: "addr list"
  console :: "log_entry list"
  pending :: "nat list"
  setTreeDataCalls :: "feature_collection list"

text \<open>
  The \<open>for\<close> loop has no suspension point: all six requests are issued before any of their
  callbacks runs.
\<close>

definition issueAll :: load_state where
  "issueAll = \<lparr> allFeatures = [], console = [], pending = [1 ..< 7], setTreeDataCalls = [] \<rparr>"

text \<open>
  The two console messages of a part: \<open>console.warn\<close> for data of the wrong shape,
  \<open>console.error\<close> from the \<open>catch\<close>.
\<close>

definition warnInvalid :: "nat \<Rightarrow> log_entry" where
  "warnInvalid i = ConsoleWarn (''Invalid GeoJSON structure in '' @ fileName i)"

definition errorLoading :: "nat \<Rightarrow> log_entry" where
  "errorLoading i = ConsoleError (''Error loading tree data from '' @ fileName i @ '':'')"

text \<open>
  The \<open>then\<close>/\<open>then\<close>/\<open>catch\<close> chain of part \<open>i\<close>, run on its response.  The features are
  pushed with a spread call, \<open>allFeatures.push(...data.features)\<close>, which passes every feature
  as one argument: beyond the number of arguments the engine accepts in a call (\<open>maxArgs\<close>, a
  parameter: it differs between engines) the call throws a RangeError, which the \<open>catch\<close> of
  the chain logs like a failed request, and nothing is pushed.
\<close>

definition partChain :: "nat \<Rightarrow> nat \<Rightarrow> part_response \<Rightarrow> load_state \<Rightarrow> load_state" where
  "partChain maxArgs i r st =
     (case r of
        Json (Some d) \<Rightarrow>
          (case pd_features d of
             Some fs \<Rightarrow>
               if pd_type d = ''FeatureCollection''
               then (if length fs \<le> maxArgs
                     then st\<lparr>allFeatures := allFeatures st @ fs\<rparr>
                     else st\<lparr>console := console st @ [errorLoading i]\<rparr>)
               else st\<lparr>console := console st @ [warnInvalid i]\<rparr>
           | None \<Rightarrow> st\<lparr>console := console st @ [warnInvalid i]\<rparr>)
      | Json None \<Rightarrow> st\<lparr>console := console st @ [warnInvalid i]\<rparr>
      | _ \<Rightarrow> st\<lparr>console := console st @ [errorLoading i]\<rparr>)"

text \<open>
  Part \<open>i\<close> settles: its chain runs (a promise settles once, so a part that is no longer
  pending changes nothing); when that was the last pending part, \<open>Promise.all\<close> resolves and
  the continuation after \<open>await\<close> calls \<open>setTreeData\<close>.
\<close>

definition settlePart ::
  "nat \<Rightarrow> (nat \<Rightarrow> part_response) \<Rightarrow> load_state \<Rightarrow> nat \<Rightarrow> load_state" where
  "settlePart maxArgs resp st i =
     (if i \<in> set (pending st)
      then let st1 = partChain maxArgs i (resp i) st;
               st2 = st1\<lparr>pending := removeAll i (pending st1)\<rparr>
           in if pending st2 = []
              then st2\<lparr>setTreeDataCalls := setTreeDataCalls st2 @
                         [\<lparr> fc_type = ''FeatureCollection'', features = allFeatures st2 \<rparr>]\<rparr>
              else st2
      else st)"

text \<open>
  \<open>loadTreeDataParts\<close> under a schedule: the order in which the parts settle, which the
  network decides.
\<close>

definition loadTreeDataParts ::
  "nat \<Rightarrow> (nat \<Rightarrow> part_response) \<Rightarrow> nat list \<Rightarrow> load_state" where
  "loadTreeDataParts maxArgs resp schedule = foldl (settlePart maxArgs resp) issueAll schedule"

text \<open>
  The features of a part that was fetched and parsed successfully (\<open>partOk\<close>), and the
  features a part contributes to the merged collection: its features if it is such a part
  and the spread call accepts them, none otherwise.
\<close>

definition partFeatures :: "part_response \<Rightarrow> addr list" where
  "partFeatures r =
     (case r of
        Json (Some d) \<Rightarrow>
          (if pd_type d = ''FeatureCollection''
           then (case pd_features d of Some fs \<Rightarrow> fs | None \<Rightarrow> [])
           else [])
      | _ \<Rightarrow> [])"

definition partMerged :: "nat \<Rightarrow> part_response \<Rightarrow> bool" where
  "partMerged maxArgs r =
     (case r of
        Json (Some d) \<Rightarrow>
          pd_type d = ''FeatureCollection'' \<and>
          (case pd_features d of Some fs \<Rightarrow> length fs \<le> maxArgs | None \<Rightarrow> False)
      | _ \<Rightarrow> False)"

definition mergedFeatures :: "nat \<Rightarrow> part_response \<Rightarrow> addr list" where
  "mergedFeatures maxArgs r = (if partMerged maxArgs r then partFeatures r else [])"

definition partOk :: "part_response \<Rightarrow> bool" where
  "partOk r =
     (case r of
        Json (Some d) \<Rightarrow> pd_type d = ''FeatureCollection'' \<and> pd_features d \<noteq> None
      | _ \<Rightarrow> False)"

text \<open>The console messages part \<open>i\<close> leaves.\<close>

definition partLog :: "nat \<Rightarrow> nat \<Rightarrow> part_response \<Rightarrow> log_entry list" where
  "partLog maxArgs i r =
     (if partMerged maxArgs r then []
      else if partOk r then [errorLoading i]
      else (case r of Json d \<Rightarrow> [warnInvalid i] | _ \<Rightarrow> [errorLoading i]))"

section \<open>DEMLayer: loadGeoRasters\<close>

text \<open>
  A parsed georaster declares per-band minima and maxima: arrays that may be missing, and
  whose entries may fail \<open>typeof x === 'number'\<close> (\<open>None\<close>).  Numbers are modelled as reals.
\<close>

record georaster =
  mins :: "real option list option"
  maxs :: "real option list option"

datatype tile_response =
    TileFetchRejected
  | TileHttpNotOk nat
  | TileParseRejected
  | TileParsed georaster

record dem_file =
  file_name :: string
  url :: string

definition demFiles :: "dem_file list" where
  "demFiles =
     [\<lparr> file_name = ''n12e077'', url = ''/data/NASADEM_HGT_n12e077_elevation.tif'' \<rparr>,
      \<lparr> file_name = ''n13e077'', url = ''/data/NASADEM_HGT_n13e077_elevation.tif'' \<rparr>,
      \<lparr> file_name = ''n14e077'', url = ''/data/NASADEM_HGT_n14e077_elevation.tif'' \<rparr>]"

text \<open>The first entry of \<open>pixelValues\<close> as JavaScript sees it.\<close>

datatype pixel = PUndefined | PNull | PNaN | PNum real

datatype color = Rgb int int int

text \<open>
  \<open>arr && arr.length > 0 && typeof arr[0] === 'number'\<close>, giving \<open>arr[0]\<close> when it holds.
\<close>

definition firstNumber :: "real option list option \<Rightarrow> real option" where
  "firstNumber arr = (case arr of None \<Rightarrow> None | Some [] \<Rightarrow> None | Some (x # _) \<Rightarrow> x)"

text \<open>
  \<open>pixelValuesToColorFn\<close>, a closure over \<open>globalMin\<close> and \<open>effectiveGlobalRange\<close>; \<open>null\<close>
  (nothing drawn) is \<open>None\<close>.
\<close>

definition pixelValuesToColorFn :: "real \<Rightarrow> real \<Rightarrow> pixel list \<Rightarrow> color option" where
  "pixelValuesToColorFn globalMin effectiveGlobalRange pixelValues =
     (case (case pixelValues of [] \<Rightarrow> PUndefined | v # _ \<Rightarrow> v) of
        PNum pixelValue \<Rightarrow>
          if pixelValue < - 9999 \<or> pixelValue > 9999 then None
          else let normalizedValue = (pixelValue - globalMin) / effectiveGlobalRange;
                   shade = \<lfloor>normalizedValue * 255\<rfloor>;
                   clampedShade = max 0 (min 255 shade)
               in Some (Rgb clampedShade clampedShade clampedShade)
      | _ \<Rightarrow> None)"

record geo_raster_layer =
  layer_georaster :: georaster
  layer_colorFn :: "pixel list \<Rightarrow> color option"

text \<open>The state of the first pass, and one iteration of its \<open>for\<close> loop.\<close>

record dem_state =
  loadedGeorasters :: "(georaster \<times> string) list"
  allMins :: "real list"
  allMaxs :: "real list"
  dem_console :: "log_entry list"

definition loadTile :: "(string \<Rightarrow> tile_response) \<Rightarrow> dem_state \<Rightarrow> dem_file \<Rightarrow> dem_state" where
  "loadTile resp st file =
     (case resp (url file) of
        TileParsed g \<Rightarrow>
          (let st1 = (case firstNumber (mins g) of
                        Some m \<Rightarrow> st\<lparr>allMins := allMins st @ [m]\<rparr>
                      | None \<Rightarrow> st\<lparr>dem_console := dem_console st @
                          [ConsoleWarn (''No valid min value found for '' @ file_name file)]\<rparr>);
               st2 = (case firstNumber (maxs g) of
                        Some m \<Rightarrow> st1\<lparr>allMaxs := allMaxs st1 @ [m]\<rparr>
                      | None \<Rightarrow> st1\<lparr>dem_console := dem_console st1 @
                          [ConsoleWarn (''No valid max value found for '' @ file_name file)]\<rparr>)
           in st2\<lparr>loadedGeorasters := loadedGeorasters st2 @ [(g, file_name file)]\<rparr>)
      | _ \<Rightarrow>
          st\<lparr>dem_console := dem_console st @
               [ConsoleError (''Error loading or parsing DEM data for '' @ file_name file @ '':'')]\<rparr>)"

definition firstPass :: "dem_file list \<Rightarrow> (string \<Rightarrow> tile_response) \<Rightarrow> dem_state" where
  "firstPass files resp =
     foldl (loadTile resp)
       \<lparr> loadedGeorasters = [], allMins = [], allMaxs = [], dem_console = [] \<rparr> files"

text \<open>
  \<open>Math.min(...xs)\<close> and \<open>Math.max(...xs)\<close> on the non-empty array \<open>x # xs\<close>.
\<close>

definition Math_min :: "real \<Rightarrow> real list \<Rightarrow> real" where
  "Math_min x xs = fold min xs x"

definition Math_max :: "real \<Rightarrow> real list \<Rightarrow> real" where
  "Math_max x xs = fold max xs x"

text \<open>
  \<open>loadGeoRasters\<close>: the layers added to the map, in order.  The early return (no georaster
  loaded, or \<open>allMins\<close> or \<open>allMaxs\<close> empty) adds none.
\<close>

definition loadGeoRasters ::
  "dem_file list \<Rightarrow> (string \<Rightarrow> tile_response) \<Rightarrow> geo_raster_layer list" where
  "loadGeoRasters files resp =
     (let st = firstPass files resp
      in if length (loadedGeorasters st) = 0 then []
         else (case (allMins st, allMaxs st) of
                 (m # ms, x # xs) \<Rightarrow>
                   (let globalMin = Math_min m ms;
                        globalMax = Math_max x xs;
                        globalRange = globalMax - globalMin;
                        effectiveGlobalRange = (if globalRange = 0 then 1 else globalRange)
                    in map (\<lambda>(g, n). \<lparr> layer_georaster = g,
                                         layer_colorFn =
                                           pixelValuesToColorFn globalMin effectiveGlobalRange \<rparr>)
                         (loadedGeorasters st))
               | _ \<Rightarrow> []))"

text \<open>
  The tiles that loaded, in file order, and the minima and maxima they declare.
\<close>

definition loadedTiles :: "dem_file list \<Rightarrow> (string \<Rightarrow> tile_response) \<Rightarrow> georaster list" where
  "loadedTiles files resp =
     concat (map (\<lambda>f. case resp (url f) of TileParsed g \<Rightarrow> [g] | _ \<Rightarrow> []) files)"

definition declaredMins :: "georaster list \<Rightarrow> real list" where
  "declaredMins gs = List.map_filter (\<lambda>g. firstNumber (mins g)) gs"

definition declaredMaxs :: "georaster list \<Rightarrow> real list" where
  "declaredMaxs gs = List.map_filter (\<lambda>g. firstNumber (maxs g)) gs"

text \<open>
  The specification's global range and the one color function derived from it: the least
  declared minimum and the greatest declared maximum of the loaded tiles.
\<close>

definition spec_globalMin :: "georaster list \<Rightarrow> real" where
  "spec_globalMin tiles = Min (set (declaredMins tiles))"

definition spec_globalMax :: "georaster list \<Rightarrow> real" where
  "spec_globalMax tiles = Max (set (declaredMaxs tiles))"

definition spec_colorFn :: "georaster list \<Rightarrow> pixel list \<Rightarrow> color option" where
  "spec_colorFn tiles =
     pixelValuesToColorFn (spec_globalMin tiles)
       (if spec_globalMax tiles - spec_globalMin tiles = 0 then 1
        else spec_globalMax tiles - spec_globalMin tiles)"

section \<open>BookmarksWidget: saving and reloading bookmarks\<close>

subsection \<open>Numbers and their JSON text\<close>

text \<open>
  The numbers of a bookmark (\<open>Date.now()\<close>, the latitude and longitude of \<open>map.getCenter()\<close>,
  \<open>map.getZoom()\<close>) are finite: Leaflet refuses to build a \<open>LatLng\<close> from \<open>NaN\<close>.  A finite
  number is represented by the decimal numeral that \<open>Number::toString\<close> writes for it, the
  shortest one that reads back as the same number: a sign, the digits before the point, the
  digits after it, and an exponent for the numbers written in scientific notation.  Two
  numbers are identical exactly when their numerals are.  \<open>numeral_form\<close> holds of every such
  numeral: its digits are digits, it has a digit before the point, and no leading zero.
\<close>

record jsnum =
  negative :: bool
  int_digits :: "nat list"
  frac_digits :: "nat list"
  exponent :: "int option"

definition all_digits :: "nat list \<Rightarrow> bool" where
  "all_digits ds = list_all (\<lambda>d. d < 10) ds"

definition numeral_form :: "jsnum \<Rightarrow> bool" where
  "numeral_form x =
     (all_digits (int_digits x) \<and> all_digits (frac_digits x) \<and> int_digits x \<noteq> [] \<and>
      (length (int_digits x) = 1 \<or> hd (int_digits x) \<noteq> 0))"

text \<open>\<open>JSON.stringify\<close> on a number writes its numeral.\<close>

definition digit_char :: "nat \<Rightarrow> char" where
  "digit_char d = char_of (48 + d)"

definition is_digit :: "char \<Rightarrow> bool" where
  "is_digit c = (let n = (of_char c :: nat) in 48 \<le> n \<and> n \<le> 57)"

definition digit_val :: "char \<Rightarrow> nat" where
  "digit_val c = of_char c - 48"

definition number_of_digits :: "nat list \<Rightarrow> nat" where
  "number_of_digits ds = foldl (\<lambda>a d. 10 * a + d) 0 ds"

definition exponentText :: "int option \<Rightarrow> string" where
  "exponentText ex =
     (case ex of
        None \<Rightarrow> []
      | Some e \<Rightarrow> ''e'' @ (if e < 0 then ''-'' else ''+'') @ digits (nat \<bar>e\<bar>))"

definition fractionText :: "nat list \<Rightarrow> string" where
  "fractionText ds = (if ds = [] then [] else ''.'' @ map digit_char ds)"

definition numberText :: "jsnum \<Rightarrow> string" where
  "numberText x =
     (if negative x then ''-'' else []) @ map digit_char (int_digits x) @
     fractionText (frac_digits x) @ exponentText (exponent x)"

text \<open>
  \<open>JSON.parse\<close> on a number: an optional minus sign, digits without a leading zero, an
  optional fraction and an optional exponent; the rest of the text is returned.
\<close>

definition readDigits :: "string \<Rightarrow> nat list \<times> string" where
  "readDigits s = (map digit_val (takeWhile is_digit s), dropWhile is_digit s)"

definition readFraction :: "string \<Rightarrow> (nat list \<times> string) option" where
  "readFraction s =
     (case s of
        [] \<Rightarrow> Some ([], s)
      | c # cs \<Rightarrow>
          if c = CHR ''.''
          then (case readDigits cs of (ds, rest) \<Rightarrow> if ds = [] then None else Some (ds, rest))
          else Some ([], s))"

definition readExponent :: "string \<Rightarrow> (int option \<times> string) option" where
  "readExponent s =
     (case s of
        [] \<Rightarrow> Some (None, s)
      | c # cs \<Rightarrow>
          if c = CHR ''e'' \<or> c = CHR ''E''
          then (let neg = (cs \<noteq> [] \<and> hd cs = CHR ''-'');
                    cs' = (if cs \<noteq> [] \<and> (hd cs = CHR ''-'' \<or> hd cs = CHR ''+'')
                           then tl cs else cs)
                in case readDigits cs' of
                     (ds, rest) \<Rightarrow>
                       if ds = [] then None
                       else Some (Some ((if neg then - 1 else 1) * int (number_of_digits ds)),
                                  rest))
          else Some (None, s))"

definition readNumber :: "string \<Rightarrow> (jsnum \<times> string) option" where
  "readNumber s =
     (let neg = (s \<noteq> [] \<and> hd s = CHR ''-'');
          s1 = (if neg then tl s else s)
      in case readDigits s1 of
           (ip, s2) \<Rightarrow>
             if ip = [] \<or> (length ip > 1 \<and> hd ip = 0) then None
             else (case readFraction s2 of
                     None \<Rightarrow> None
                   | Some (fp, s3) \<Rightarrow>
                       (case readExponent s3 of
                          None \<Rightarrow> None
                        | Some (ex, s4) \<Rightarrow>
                            Some (\<lparr> negative = neg, int_digits = ip, frac_digits = fp,
                                     exponent = ex \<rparr>, s4))))"

text \<open>
  Where a numeral ends: at the end of the text or before a character that cannot continue
  it.
\<close>

definition ends_number :: "string \<Rightarrow> bool" where
  "ends_number rest =
     (case rest of
        [] \<Rightarrow> True
      | c # _ \<Rightarrow> \<not> is_digit c \<and> c \<noteq> CHR ''.'' \<and> c \<noteq> CHR ''e'' \<and> c \<noteq> CHR ''E'')"

subsection \<open>Strings and their JSON text\<close>

text \<open>
  \<open>JSON.stringify\<close> on a string (\<open>QuoteJSONString\<close>): the quotation mark and the backslash are
  escaped, a control character is written as its short escape or as \<open>\u00XX\<close>, every other
  character as itself.
\<close>

definition quoted :: "string \<Rightarrow> string" where
  "quoted s = [CHR 0x22] @ s @ [CHR 0x22]"

definition hexDigit :: "nat \<Rightarrow> char" where
  "hexDigit n = (if n < 10 then char_of (48 + n) else char_of (87 + n))"

definition hexValue :: "char \<Rightarrow> nat option" where
  "hexValue c =
     (let n = (of_char c :: nat)
      in if 48 \<le> n \<and> n \<le> 57 then Some (n - 48)
         else if 97 \<le> n \<and> n \<le> 102 then Some (n - 87)
         else if 65 \<le> n \<and> n \<le> 70 then Some (n - 55)
         else None)"

definition escapeChar :: "char \<Rightarrow> string" where
  "escapeChar c =
     (let n = (of_char c :: nat)
      in if n = 8 then [CHR 0x5C, CHR ''b'']
         else if n = 9 then [CHR 0x5C, CHR ''t'']
         else if n = 10 then [CHR 0x5C, CHR ''n'']
         else if n = 12 then [CHR 0x5C, CHR ''f'']
         else if n = 13 then [CHR 0x5C, CHR ''r'']
         else if n = 34 then [CHR 0x5C, CHR 0x22]
         else if n = 92 then [CHR 0x5C, CHR 0x5C]
         else if n < 32
         then [CHR 0x5C, CHR ''u'', CHR ''0'', CHR ''0'', hexDigit (n div 16), hexDigit (n mod 16)]
         else [c])"

definition stringText :: "string \<Rightarrow> string" where
  "stringText s = [CHR 0x22] @ concat (map escapeChar s) @ [CHR 0x22]"

text \<open>
  \<open>JSON.parse\<close> on a string: it reads up to the closing quotation mark, decodes the escapes
  and rejects an unescaped control character.  The characters of the model are the code
  units below 256, so a \<open>\u\<close> escape of a larger code unit is rejected too.
\<close>

definition simpleEscape :: "char \<Rightarrow> char option" where
  "simpleEscape e =
     (if e = CHR 0x22 then Some (CHR 0x22)
      else if e = CHR 0x5C then Some (CHR 0x5C)
      else if e = CHR ''/'' then Some (CHR ''/'')
      else if e = CHR ''b'' then Some (char_of (8::nat))
      else if e = CHR ''f'' then Some (char_of (12::nat))
      else if e = CHR ''n'' then Some (char_of (10::nat))
      else if e = CHR ''r'' then Some (char_of (13::nat))
      else if e = CHR ''t'' then Some (char_of (9::nat))
      else None)"

definition unicodeEscape :: "char \<Rightarrow> char \<Rightarrow> char \<Rightarrow> char \<Rightarrow> char option" where
  "unicodeEscape a b c d =
     (case (hexValue a, hexValue b, hexValue c, hexValue d) of
        (Some x, Some y, Some z, Some w) \<Rightarrow>
          (let v = ((x * 16 + y) * 16 + z) * 16 + w
           in if v < 256 then Some (char_of v) else None)
      | _ \<Rightarrow> None)"

definition consChar :: "char \<Rightarrow> (string \<times> string) option \<Rightarrow> (string \<times> string) option" where
  "consChar c r = (case r of None \<Rightarrow> None | Some (str, rest) \<Rightarrow> Some (c # str, rest))"

fun readChars :: "string \<Rightarrow> (string \<times> string) option" where
  "readChars [] = None"
| "readChars (c # cs) =
     (if c = CHR 0x22 then Some ([], cs)
      else if c = CHR 0x5C
      then (case cs of
              [] \<Rightarrow> None
            | e # cs1 \<Rightarrow>
                if e = CHR ''u''
                then (case cs1 of
                        a # b # x # y # cs2 \<Rightarrow>
                          (case unicodeEscape a b x y of
                             None \<Rightarrow> None
                           | Some ch \<Rightarrow> consChar ch (readChars cs2))
                      | _ \<Rightarrow> None)
                else (case simpleEscape e of
                        None \<Rightarrow> None
                      | Some ch \<Rightarrow> consChar ch (readChars cs1)))
      else if (of_char c :: nat) < 32 then None
      else consChar c (readChars cs))"

definition readString :: "string \<Rightarrow> (string \<times> string) option" where
  "readString s = (case s of [] \<Rightarrow> None | c # cs \<Rightarrow> if c = CHR 0x22 then readChars cs else None)"

subsection \<open>The bookmark list and its JSON text\<close>

record bookmark =
  bm_id :: jsnum
  bm_name :: string
  center :: "jsnum \<times> jsnum"
  zoom :: jsnum

definition numeral_forms :: "bookmark \<Rightarrow> bool" where
  "numeral_forms b =
     (numeral_form (bm_id b) \<and> numeral_form (fst (center b)) \<and>
      numeral_form (snd (center b)) \<and> numeral_form (zoom b))"

text \<open>
  \<open>JSON.stringify(bookmarks)\<close>: the array of the bookmark objects, each with its properties
  in the order in which \<open>saveCurrentViewAsBookmark\<close> creates them (\<open>id\<close>, \<open>name\<close>, \<open>center\<close>,
  \<open>zoom\<close>), without white space.
\<close>

definition idKey :: string where
  "idKey = ''{'' @ quoted ''id'' @ '':''"

definition nameKey :: string where
  "nameKey = '','' @ quoted ''name'' @ '':''"

definition centerKey :: string where
  "centerKey = '','' @ quoted ''center'' @ '':[''"

definition zoomKey :: string where
  "zoomKey = ''],'' @ quoted ''zoom'' @ '':''"

definition bookmarkText :: "bookmark \<Rightarrow> string" where
  "bookmarkText b =
     idKey @ numberText (bm_id b) @ nameKey @ stringText (bm_name b) @
     centerKey @ numberText (fst (center b)) @ '','' @ numberText (snd (center b)) @
     zoomKey @ numberText (zoom b) @ ''}''"

fun separated :: "string list \<Rightarrow> string" where
  "separated [] = []"
| "separated [x] = x"
| "separated (x # y # ys) = x @ '','' @ separated (y # ys)"

definition JSON_stringify :: "bookmark list \<Rightarrow> string" where
  "JSON_stringify bs = ''['' @ separated (map bookmarkText bs) @ '']''"

text \<open>
  \<open>JSON.parse\<close> on the texts of this shape, an array of objects with these four properties in
  this order and no white space; on any other text the model answers \<open>None\<close>, which stands for
  a parse error and for a value that is not a list of bookmarks.  \<open>readItems\<close> reads one
  bookmark per unit of fuel; a text has fewer bookmarks than characters.
\<close>

definition expect :: "string \<Rightarrow> string \<Rightarrow> string option" where
  "expect p s = (if prefix p s then Some (drop (length p) s) else None)"

definition readBookmark :: "string \<Rightarrow> (bookmark \<times> string) option" where
  "readBookmark s =
     Option.bind (expect idKey s) (\<lambda>s1.
     Option.bind (readNumber s1) (\<lambda>(i, s2).
     Option.bind (expect nameKey s2) (\<lambda>s3.
     Option.bind (readString s3) (\<lambda>(n, s4).
     Option.bind (expect centerKey s4) (\<lambda>s5.
     Option.bind (readNumber s5) (\<lambda>(lat, s6).
     Option.bind (expect '','' s6) (\<lambda>s7.
     Option.bind (readNumber s7) (\<lambda>(lng, s8).
     Option.bind (expect zoomKey s8) (\<lambda>s9.
     Option.bind (readNumber s9) (\<lambda>(z, s10).
     Option.bind (expect ''}'' s10) (\<lambda>s11.
     Some (\<lparr> bm_id = i, bm_name = n, center = (lat, lng), zoom = z \<rparr>, s11))))))))))))"

fun readItems :: "nat \<Rightarrow> string \<Rightarrow> (bookmark list \<times> string) option" where
  "readItems 0 s = None"
| "readItems (Suc fuel) s =
     (case readBookmark s of
        None \<Rightarrow> None
      | Some (b, rest) \<Rightarrow>
          (case rest of
             [] \<Rightarrow> None
           | c # rest' \<Rightarrow>
               if c = CHR '','' then
                 (case readItems fuel rest' of
                    None \<Rightarrow> None
                  | Some (bs, r) \<Rightarrow> Some (b # bs, r))
               else if c = CHR '']'' then Some ([b], rest')
               else None))"

definition JSON_parse :: "string \<Rightarrow> bookmark list option" where
  "JSON_parse s =
     (case s of
        [] \<Rightarrow> None
      | c # cs \<Rightarrow>
          if c \<noteq> CHR ''['' then None
          else if cs = '']'' then Some []
          else (case readItems (length cs) cs of
                  None \<Rightarrow> None
                | Some (bs, rest) \<Rightarrow> if rest = [] then Some bs else None))"

subsection \<open>The widget\<close>

record widget_state =
  bookmarks :: "bookmark list"
  newBookmarkName :: string
  visible :: bool

text \<open>\<open>localStorage\<close>: \<open>getItem\<close> is application, \<open>setItem\<close> is update.\<close>

type_synonym storage = "string \<rightharpoonup> string"

text \<open>
  \<open>saveCurrentViewAsBookmark\<close>, given \<open>Date.now()\<close>, \<open>map.getCenter()\<close> and \<open>map.getZoom()\<close>.
\<close>

definition saveCurrentViewAsBookmark ::
  "jsnum \<Rightarrow> jsnum \<times> jsnum \<Rightarrow> jsnum \<Rightarrow> widget_state \<Rightarrow> widget_state" where
  "saveCurrentViewAsBookmark now currentCenter currentZoom st =
     (if trim (newBookmarkName st) = [] then st
      else let newBookmark = \<lparr> bm_id = now, bm_name = trim (newBookmarkName st),
                                center = (fst currentCenter, snd currentCenter),
                                zoom = currentZoom \<rparr>
           in st\<lparr> bookmarks := bookmarks st @ [newBookmark], newBookmarkName := [],
                  visible := False \<rparr>)"

text \<open>The effect with dependency \<open>[bookmarks]\<close>: it writes the list it was rendered with.\<close>

definition saveEffect :: "bookmark list \<Rightarrow> storage \<Rightarrow> storage" where
  "saveEffect bs ls = ls(''mapBookmarks'' \<mapsto> JSON_stringify bs)"

text \<open>
  The effect with dependency \<open>[]\<close>: the argument of the \<open>setBookmarks\<close> call it makes, if it
  makes one.  An absent key and an empty text are falsy; a text that does not parse is
  caught and logged.
\<close>

definition loadEffect :: "storage \<Rightarrow> bookmark list option" where
  "loadEffect ls =
     (case ls ''mapBookmarks'' of
        None \<Rightarrow> None
      | Some storedBookmarks \<Rightarrow> if storedBookmarks = [] then None else JSON_parse storedBookmarks)"

text \<open>
  The user presses Save: the handler runs and, when the list changed, the save effect runs
  after the render.
\<close>

definition pressSave ::
  "jsnum \<Rightarrow> jsnum \<times> jsnum \<Rightarrow> jsnum \<Rightarrow> widget_state \<times> storage \<Rightarrow> widget_state \<times> storage" where
  "pressSave now c z sl =
     (let st' = saveCurrentViewAsBookmark now c z (fst sl)
      in if bookmarks st' = bookmarks (fst sl) then (st', snd sl)
         else (st', saveEffect (bookmarks st') (snd sl)))"

text \<open>
  Mounting the widget on a storage.  Both effects run after the first render, in source
  order, and both see that render's \<open>bookmarks\<close>, the empty list: the load effect queues its
  update, the save effect writes the empty list.  If an update was queued, the widget
  renders again with the loaded list and the save effect writes that list.
\<close>

definition mountWidget :: "storage \<Rightarrow> widget_state \<times> storage" where
  "mountWidget ls =
     (let st0 = \<lparr> bookmarks = [], newBookmarkName = [], visible = False \<rparr>;
          queued = loadEffect ls;
          ls1 = saveEffect (bookmarks st0) ls
      in case queued of
           None \<Rightarrow> (st0, ls1)
         | Some loaded \<Rightarrow> (st0\<lparr>bookmarks := loaded\<rparr>, saveEffect loaded ls1))"

section \<open>Example data\<close>

text \<open>
  A small store: a named ward polygon (0), a named school node (1), an unnamed school node
  (2), a school mapped as a way, which osmtogeojson turns into a polygon (3), a school node
  with a third coordinate (4) and a tree of the census (5).
\<close>

definition noFeature :: feature where
  "noFeature = \<lparr> properties = None, geometry = None, key = KeyUndefined \<rparr>"

definition pointAt :: "real list \<Rightarrow> geometry option" where
  "pointAt cs = Some \<lparr> gtype = ''Point'', coordinates = Some cs \<rparr>"

definition exampleStore :: store where
  "exampleStore =
     (\<lambda>a. noFeature)
     (0 := \<lparr> properties = Some \<lparr> KGISWardName = Some ''Hebbal'', tags = None, name = None,
                                  TreeName = None \<rparr>,
             geometry = Some \<lparr> gtype = ''Polygon'', coordinates = Some [] \<rparr>,
             key = KeyUndefined \<rparr>,
      1 := \<lparr> properties = Some \<lparr> KGISWardName = None,
                                  tags = Some (Some ''Hebbal Public School''), name = None,
                                  TreeName = None \<rparr>,
             geometry = pointAt [77.59, 13.03], key = KeyUndefined \<rparr>,
      2 := \<lparr> properties = Some \<lparr> KGISWardName = None, tags = Some None, name = None,
                                  TreeName = None \<rparr>,
             geometry = pointAt [77.6, 12.9], key = KeyUndefined \<rparr>,
      3 := \<lparr> properties = Some \<lparr> KGISWardName = None, tags = Some (Some ''City School''),
                                  name = None, TreeName = None \<rparr>,
             geometry = Some \<lparr> gtype = ''Polygon'', coordinates = Some [] \<rparr>,
             key = KeyUndefined \<rparr>,
      4 := \<lparr> properties = Some \<lparr> KGISWardName = None, tags = Some (Some ''Hill School''),
                                  name = None, TreeName = None \<rparr>,
             geometry = pointAt [77.5, 12.8, 920], key = KeyUndefined \<rparr>,
      5 := \<lparr> properties = Some \<lparr> KGISWardName = None, tags = None, name = Some ''Neem'',
                                  TreeName = Some ''Neem'' \<rparr>,
             geometry = pointAt [77.58, 12.97], key = KeyUndefined \<rparr>)"

definition exampleWards :: feature_collection where
  "exampleWards = \<lparr> fc_type = ''FeatureCollection'', features = [0] \<rparr>"

definition exampleSchools :: feature_collection where
  "exampleSchools = \<lparr> fc_type = ''FeatureCollection'', features = [1, 2, 3, 4] \<rparr>"

definition exampleTrees :: feature_collection where
  "exampleTrees = \<lparr> fc_type = ''FeatureCollection'', features = [5] \<rparr>"

text \<open>
  The example store with one more ward polygon (6), which has no \<open>KGISWardName\<close>, and the
  ward dataset that holds both wards.
\<close>

definition storeWithUnnamedWard :: store where
  "storeWithUnnamedWard =
     exampleStore
     (6 := \<lparr> properties = Some \<lparr> KGISWardName = None, tags = None, name = None,
                                  TreeName = None \<rparr>,
             geometry = Some \<lparr> gtype = ''Polygon'', coordinates = Some [] \<rparr>,
             key = KeyUndefined \<rparr>)"

definition wardsWithUnnamed :: feature_collection where
  "wardsWithUnnamed = \<lparr> fc_type = ''FeatureCollection'', features = [0, 6] \<rparr>"

text \<open>Twelve wards that all carry the same name.\<close>

definition twelveWardsStore :: store where
  "twelveWardsStore =
     (\<lambda>a. \<lparr> properties = Some \<lparr> KGISWardName = Some ''Ward'', tags = None, name = None,
                                  TreeName = None \<rparr>,
             geometry = Some \<lparr> gtype = ''Polygon'', coordinates = Some [] \<rparr>,
             key = KeyUndefined \<rparr>)"

definition twelveWards :: feature_collection where
  "twelveWards = \<lparr> fc_type = ''FeatureCollection'', features = [0 ..< 12] \<rparr>"

text \<open>The school layer rendered over the example store, and App with both fetches settled.\<close>

definition renderedStore :: store where
  "renderedStore = fst (SchoolLayer exampleStore True (Some exampleSchools))"

definition loadedState :: app_state where
  "loadedState =
     run exampleStore
       [WardFetchSettled (Some exampleWards), SchoolFetchSettled (Some exampleSchools)] mount"

text \<open>
  Six part responses of which the third is a 404, and the order in which they settle.
\<close>

definition exampleParts :: "nat \<Rightarrow> part_response" where
  "exampleParts i =
     (if i = 3 then HttpNotOk 404
      else Json (Some \<lparr> pd_type = ''FeatureCollection'',
                        pd_features = Some [10 * i, 10 * i + 1] \<rparr>))"

definition exampleSchedule :: "nat list" where
  "exampleSchedule = [2, 5, 1, 6, 3, 4]"

text \<open>
  The argument limit of JavaScriptCore, and six well-formed parts of which the second has
  one feature more than that.
\<close>

definition argumentLimit :: nat where
  "argumentLimit = 65536"

definition bigPart :: "addr list" where
  "bigPart = [100 ..< 65637]"

definition bigParts :: "nat \<Rightarrow> part_response" where
  "bigParts i =
     Json (Some \<lparr> pd_type = ''FeatureCollection'',
                   pd_features = Some (if i = 2 then bigPart else [10 * i, 10 * i + 1]) \<rparr>)"

text \<open>
  Two tiles that declare the ranges [0, 100] and [50, 200]; the third request fails.
\<close>

definition exampleTiles :: "string \<Rightarrow> tile_response" where
  "exampleTiles u =
     (if u = ''/data/NASADEM_HGT_n12e077_elevation.tif''
      then TileParsed \<lparr> mins = Some [Some 0], maxs = Some [Some 100] \<rparr>
      else if u = ''/data/NASADEM_HGT_n13e077_elevation.tif''
      then TileParsed \<lparr> mins = Some [Some 50], maxs = Some [Some 200] \<rparr>
      else TileHttpNotOk 404)"

text \<open>
  The numbers 1700000000000, 12.9716, 77.5946 and 12, and the bookmark \<open>Home\<close> made of them.
\<close>

definition exampleNow :: jsnum where
  "exampleNow =
     \<lparr> negative = False, int_digits = [1, 7, 0, 0, 0, 0, 0, 0, 0, 0, 0, 0, 0],
       frac_digits = [], exponent = None \<rparr>"

definition exampleLat :: jsnum where
  "exampleLat =
     \<lparr> negative = False, int_digits = [1, 2], frac_digits = [9, 7, 1, 6], exponent = None \<rparr>"

definition exampleLng :: jsnum where
  "exampleLng =
     \<lparr> negative = False, int_digits = [7, 7], frac_digits = [5, 9, 4, 6], exponent = None \<rparr>"

definition exampleZoom :: jsnum where
  "exampleZoom = \<lparr> negative = False, int_digits = [1, 2], frac_digits = [], exponent = None \<rparr>"

definition exampleBookmark :: bookmark where
  "exampleBookmark =
     \<lparr> bm_id = exampleNow, bm_name = ''Home'', center = (exampleLat, exampleLng),
       zoom = exampleZoom \<rparr>"

text \<open>The text \<open>[{"id":1700000000000,"name":"Home","center":[12.9716,77.5946],"zoom":12}]\<close>.\<close>

definition exampleText :: string where
  "exampleText =
     ''[{'' @ quoted ''id'' @ '':1700000000000,'' @ quoted ''name'' @ '':'' @ quoted ''Home'' @
     '','' @ quoted ''center'' @ '':[12.9716,77.5946],'' @ quoted ''zoom'' @ '':12}]''"

definition freshWidget :: widget_state where
  "freshWidget = \<lparr> bookmarks = [], newBookmarkName = ''  Home '', visible = True \<rparr>"

section \<open>Properties of the search index\<close>

lemma includes_str_sublist: "includes_str s q \<longleftrightarrow> sublist q s"
  by (induction s) (auto simp: sublist_Cons_right)

lemma foldl_pushWard: "foldl (pushWard h) acc as = acc @ map (wardItem h) as"
  by (induction as arbitrary: acc) (simp_all add: pushWard_def)

lemma foldl_pushSchool:
  "foldl (pushSchool h) acc as = acc @ List.map_filter (schoolItemOf h) as"
  by (induction as arbitrary: acc)
     (auto simp: pushSchool_def schoolItemOf_def List.map_filter_simps split: option.splits)

lemma schoolItemOf_Some:
  "schoolItemOf h a = Some it \<longleftrightarrow>
     (\<exists>cs. coordsOf (h a) = Some cs \<and> geomType (h a) = Some ''Point'' \<and> it = schoolItem h a cs)"
  by (auto simp: schoolItemOf_def split: option.splits)

lemma set_map_filter_Some:
  "y \<in> set (List.map_filter f xs) \<longleftrightarrow> (\<exists>x \<in> set xs. f x = Some y)"
  by (induction xs) (auto simp: List.map_filter_simps split: option.splits)

lemma schoolItems_mem:
  "it \<in> set (schoolItems h (Some fc)) \<longleftrightarrow>
     (\<exists>a \<in> set (features fc). \<exists>cs. coordsOf (h a) = Some cs \<and>
        geomType (h a) = Some ''Point'' \<and> it = schoolItem h a cs)"
  by (simp add: schoolItems_def set_map_filter_Some schoolItemOf_Some)

lemma searchableItems_eq:
  "searchableItems h w s t = wardItems h w @ schoolItems h s"
  by (simp add: searchableItems_def wardItems_def schoolItems_def foldl_pushWard
      foldl_pushSchool split: option.splits)

lemma queryEffect_nonempty:
  "q \<noteq> [] \<Longrightarrow>
   queryEffect h w s t q =
     take 10 (filter (matches (toLowerCase q)) (searchableItems h w s t))"
  by (simp add: queryEffect_def Let_def)

text \<open>
  C7.  For every query and every loaded data, the result list has at most ten entries, and
  it is the beginning of the list of matching ward items, in the order of the ward dataset,
  followed by the matching school items, in the order of the school dataset: nothing is
  re-ranked.
\<close>

theorem queryEffect_capped_in_aggregation_order:
  "length (queryEffect h w s t q) \<le> 10 \<and>
   queryEffect h w s t q =
     take (if q = [] then 0 else 10)
       (filter (matches (toLowerCase q)) (wardItems h w) @
        filter (matches (toLowerCase q)) (schoolItems h s))"
proof (cases "q = []")
  case True
  then show ?thesis by (simp add: queryEffect_def)
next
  case False
  then show ?thesis by (simp add: queryEffect_nonempty searchableItems_eq del: take_append)
qed

text \<open>
  Twelve wards match the query \<open>WARD\<close> and ten are returned; on the example data the query
  \<open>heb\<close> returns the ward before the school.
\<close>

theorem queryEffect_capped_in_aggregation_order_witness:
  "length (queryEffect twelveWardsStore (Some twelveWards) None None ''WARD'') = 10 \<and>
   map item_feature (queryEffect exampleStore (Some exampleWards) (Some exampleSchools)
      (Some exampleTrees) ''heb'') = [0, 1]"
proof -
  have a: "length (filter (matches (toLowerCase ''WARD''))
             (wardItems twelveWardsStore (Some twelveWards))) = 12"
    by code_simp
  have b: "filter (matches (toLowerCase ''WARD'')) (schoolItems twelveWardsStore None) = []"
    by (simp add: schoolItems_def)
  have c: "map item_feature (take 10
       (filter (matches (toLowerCase ''heb'')) (wardItems exampleStore (Some exampleWards)) @
        filter (matches (toLowerCase ''heb''))
          (schoolItems exampleStore (Some exampleSchools)))) = [0, 1]"
    by code_simp
  from queryEffect_capped_in_aggregation_order
         [of twelveWardsStore "Some twelveWards" None None "''WARD''"]
  have "length (queryEffect twelveWardsStore (Some twelveWards) None None ''WARD'') = 10"
    using a b by simp
  moreover from queryEffect_capped_in_aggregation_order
         [of exampleStore "Some exampleWards" "Some exampleSchools" "Some exampleTrees"
            "''heb''"]
  have "map item_feature (queryEffect exampleStore (Some exampleWards) (Some exampleSchools)
      (Some exampleTrees) ''heb'') = [0, 1]"
    using c by simp
  ultimately show ?thesis by simp
qed

text \<open>
  A query of one space is not empty, so it is matched like any other text: three of the
  example schools have a space in their name and are returned.
\<close>

theorem whitespace_query_has_results:
  "list_all is_space '' '' \<and>
   map item_name (queryEffect exampleStore None (Some exampleSchools) None '' '') =
     [''Hebbal Public School'', ''Unnamed School'', ''Hill School'']"
  by code_simp

text \<open>
  C6, as the code has it.  For every loaded data, the empty query returns no result.  Only
  \<open>query.length === 0\<close> is tested: every other query, of whitespace or not, returns the
  first ten items whose lower-cased name contains the lower-cased query.
\<close>

theorem empty_query_no_results:
  "queryEffect h w s t [] = [] \<and>
   (q \<noteq> [] \<longrightarrow>
      queryEffect h w s t q =
        take 10 (filter (matches (toLowerCase q)) (searchableItems h w s t)))"
  by (simp add: queryEffect_def Let_def)

text \<open>The empty query and the query of one space on the example wards and schools.\<close>

theorem empty_query_no_results_witness:
  "queryEffect exampleStore (Some exampleWards) (Some exampleSchools) (Some exampleTrees) []
     = [] \<and>
   map item_feature
     (queryEffect exampleStore (Some exampleWards) (Some exampleSchools) (Some exampleTrees)
        '' '') = [1, 2, 4]"
proof -
  have q: "'' '' \<noteq> []" by simp
  have r: "map item_feature (take 10 (filter (matches (toLowerCase '' ''))
        (searchableItems exampleStore (Some exampleWards) (Some exampleSchools)
           (Some exampleTrees)))) = [1, 2, 4]"
    by code_simp
  from empty_query_no_results
         [of exampleStore "Some exampleWards" "Some exampleSchools" "Some exampleTrees" "'' ''"]
  show ?thesis using q r by simp
qed

text \<open>
  The tree dataset is loaded and holds a tree named Neem, and the query \<open>neem\<close> matches that
  name; yet no item of the index refers to the tree, and the query has no result.
\<close>

theorem search_index_omits_trees:
  "5 \<in> set (features exampleTrees) \<and>
   map_option TreeName (properties (exampleStore 5)) = Some (Some ''Neem'') \<and>
   includes_str (toLowerCase ''Neem'') (toLowerCase ''neem'') \<and>
   5 \<notin> set (map item_feature
      (searchableItems exampleStore (Some exampleWards) (Some exampleSchools)
         (Some exampleTrees))) \<and>
   queryEffect exampleStore (Some exampleWards) (Some exampleSchools) (Some exampleTrees)
     ''neem'' = []"
  by code_simp

text \<open>
  C3, as the code has it.  The index is built from the ward dataset and the school dataset
  and does not depend on the tree dataset.  For every non-empty query, the item of every
  loaded ward feature whose name contains the query case-insensitively, and the item of
  every loaded school feature with a coordinates array and geometry type Point whose name
  does, is in the filtered list of which the result is the first ten entries.
\<close>

theorem search_index_wards_and_schools:
  assumes "q \<noteq> []"
  shows "queryEffect h w s t q =
           take 10 (filter (matches (toLowerCase q)) (searchableItems h w s None)) \<and>
         (\<forall>fc a. w = Some fc \<and> a \<in> set (features fc) \<and>
                 includes_str (toLowerCase (wardName (h a))) (toLowerCase q) \<longrightarrow>
                 wardItem h a \<in>
                   set (filter (matches (toLowerCase q)) (searchableItems h w s None))) \<and>
         (\<forall>fc a cs. s = Some fc \<and> a \<in> set (features fc) \<and>
                 coordsOf (h a) = Some cs \<and> geomType (h a) = Some ''Point'' \<and>
                 includes_str (toLowerCase (schoolName (h a))) (toLowerCase q) \<longrightarrow>
                 schoolItem h a cs \<in>
                   set (filter (matches (toLowerCase q)) (searchableItems h w s None)))"
proof (intro conjI allI impI)
  show "queryEffect h w s t q =
          take 10 (filter (matches (toLowerCase q)) (searchableItems h w s None))"
    using assms by (simp add: queryEffect_nonempty searchableItems_eq)
next
  fix fc a
  assume "w = Some fc \<and> a \<in> set (features fc) \<and>
          includes_str (toLowerCase (wardName (h a))) (toLowerCase q)"
  then show "wardItem h a \<in>
          set (filter (matches (toLowerCase q)) (searchableItems h w s None))"
    by (auto simp: searchableItems_eq wardItems_def matches_def wardItem_def)
next
  fix fc a cs
  assume "s = Some fc \<and> a \<in> set (features fc) \<and>
          coordsOf (h a) = Some cs \<and> geomType (h a) = Some ''Point'' \<and>
          includes_str (toLowerCase (schoolName (h a))) (toLowerCase q)"
  then have "schoolItem h a cs \<in> set (schoolItems h s)"
    and "matches (toLowerCase q) (schoolItem h a cs)"
    by (auto simp: schoolItems_mem matches_def schoolItem_def)
  then show "schoolItem h a cs \<in>
          set (filter (matches (toLowerCase q)) (searchableItems h w s None))"
    by (simp add: searchableItems_eq)
qed

text \<open>The query \<open>heb\<close> on the example data: the ward Hebbal and the Hebbal Public School.\<close>

theorem search_index_wards_and_schools_witness:
  "''heb'' \<noteq> [] \<and>
   wardItem exampleStore 0 \<in>
     set (filter (matches (toLowerCase ''heb''))
        (searchableItems exampleStore (Some exampleWards) (Some exampleSchools) None)) \<and>
   schoolItem exampleStore 1 [77.59, 13.03] \<in>
     set (filter (matches (toLowerCase ''heb''))
        (searchableItems exampleStore (Some exampleWards) (Some exampleSchools) None)) \<and>
   map item_feature (queryEffect exampleStore (Some exampleWards) (Some exampleSchools)
      (Some exampleTrees) ''heb'') = [0, 1]"
proof -
  have q: "''heb'' \<noteq> []" by simp
  note inst = search_index_wards_and_schools
    [OF q, of exampleStore "Some exampleWards" "Some exampleSchools" "Some exampleTrees"]
  have w: "Some exampleWards = Some exampleWards \<and> 0 \<in> set (features exampleWards) \<and>
           includes_str (toLowerCase (wardName (exampleStore 0))) (toLowerCase ''heb'')"
    by code_simp
  have s: "Some exampleSchools = Some exampleSchools \<and> 1 \<in> set (features exampleSchools) \<and>
           coordsOf (exampleStore 1) = Some [77.59, 13.03] \<and>
           geomType (exampleStore 1) = Some ''Point'' \<and>
           includes_str (toLowerCase (schoolName (exampleStore 1))) (toLowerCase ''heb'')"
    by code_simp
  have r: "map item_feature (take 10 (filter (matches (toLowerCase ''heb''))
        (searchableItems exampleStore (Some exampleWards) (Some exampleSchools) None))) =
          [0, 1]"
    by code_simp
  from inst w have "wardItem exampleStore 0 \<in>
     set (filter (matches (toLowerCase ''heb''))
        (searchableItems exampleStore (Some exampleWards) (Some exampleSchools) None))"
    by blast
  moreover from inst s have "schoolItem exampleStore 1 [77.59, 13.03] \<in>
     set (filter (matches (toLowerCase ''heb''))
        (searchableItems exampleStore (Some exampleWards) (Some exampleSchools) None))"
    by blast
  moreover from inst r have "map item_feature (queryEffect exampleStore (Some exampleWards)
      (Some exampleSchools) (Some exampleTrees) ''heb'') = [0, 1]"
    by simp
  ultimately show ?thesis using q by blast
qed

section \<open>Rendering the school layer\<close>

lemma renderSchoolFeature_store:
  "fst (renderSchoolFeature h a idx) =
     (if rendersMarker h a then h(a := (h a)\<lparr>key := KeyNum idx\<rparr>) else h)"
  by (auto simp: renderSchoolFeature_def rendersMarker_def split: option.splits)

lemma renderSchoolFeatures_Cons:
  "fst (renderSchoolFeatures h (a # as) idx) =
     fst (renderSchoolFeatures (fst (renderSchoolFeature h a idx)) as (Suc idx))"
  by (simp split: prod.splits)

lemma renderSchoolFeature_geometry:
  "geometry (fst (renderSchoolFeature h a idx) b) = geometry (h b)"
  by (simp add: renderSchoolFeature_store)

lemma renderSchoolFeature_properties:
  "properties (fst (renderSchoolFeature h a idx) b) = properties (h b)"
  by (simp add: renderSchoolFeature_store)

lemma rendersMarker_cong:
  "geometry (h' b) = geometry (h b) \<Longrightarrow> rendersMarker h' b = rendersMarker h b"
  by (simp add: rendersMarker_def coordsOf_def geomType_def split: option.splits)

lemma renderSchoolFeature_rendersMarker:
  "rendersMarker (fst (renderSchoolFeature h a idx)) b = rendersMarker h b"
  by (rule rendersMarker_cong) (rule renderSchoolFeature_geometry)

lemma render_geometry:
  "geometry (fst (renderSchoolFeatures h as idx) b) = geometry (h b)"
proof (induction as arbitrary: h idx)
  case Nil
  show ?case by simp
next
  case (Cons a as)
  show ?case
    unfolding renderSchoolFeatures_Cons Cons.IH by (rule renderSchoolFeature_geometry)
qed

lemma render_properties:
  "properties (fst (renderSchoolFeatures h as idx) b) = properties (h b)"
proof (induction as arbitrary: h idx)
  case Nil
  show ?case by simp
next
  case (Cons a as)
  show ?case
    unfolding renderSchoolFeatures_Cons Cons.IH by (rule renderSchoolFeature_properties)
qed

lemma render_untouched:
  "b \<notin> set as \<Longrightarrow> fst (renderSchoolFeatures h as idx) b = h b"
proof (induction as arbitrary: h idx)
  case Nil
  show ?case by simp
next
  case (Cons a as)
  then have "b \<noteq> a" and "b \<notin> set as" by auto
  then show ?case
    unfolding renderSchoolFeatures_Cons
    by (simp add: Cons.IH renderSchoolFeature_store)
qed

lemma render_key_index:
  "distinct as \<Longrightarrow> i < length as \<Longrightarrow> rendersMarker h (as ! i) \<Longrightarrow>
   key (fst (renderSchoolFeatures h as idx) (as ! i)) = KeyNum (idx + i)"
proof (induction as arbitrary: h idx i)
  case Nil
  then show ?case by simp
next
  case (Cons a as)
  let ?h1 = "fst (renderSchoolFeature h a idx)"
  show ?case
  proof (cases i)
    case 0
    have "a \<notin> set as" using Cons.prems(1) by simp
    then have "fst (renderSchoolFeatures ?h1 as (Suc idx)) a = ?h1 a"
      by (rule render_untouched)
    then show ?thesis
      using Cons.prems(3) 0 unfolding renderSchoolFeatures_Cons
      by (simp add: renderSchoolFeature_store)
  next
    case (Suc j)
    have rm: "rendersMarker ?h1 (as ! j)"
      using Cons.prems(3) Suc
      by (simp add: renderSchoolFeature_rendersMarker)
    have "key (fst (renderSchoolFeatures ?h1 as (Suc idx)) (as ! j)) = KeyNum (Suc idx + j)"
      using Cons.prems Suc by (intro Cons.IH rm) simp_all
    then show ?thesis unfolding renderSchoolFeatures_Cons using Suc by simp
  qed
qed


lemma SchoolLayer_store:
  "fst (SchoolLayer h True (Some fc)) = fst (renderSchoolFeatures h (features fc) 0)"
  by (simp add: SchoolLayer_def split: prod.splits)


lemma render_not_marker:
  "\<not> rendersMarker h b \<Longrightarrow> fst (renderSchoolFeatures h as idx) b = h b"
proof (induction as arbitrary: h idx)
  case Nil
  show ?case by simp
next
  case (Cons a as)
  let ?h1 = "fst (renderSchoolFeature h a idx)"
  have "\<not> rendersMarker ?h1 b"
    using Cons.prems by (simp add: renderSchoolFeature_rendersMarker)
  then have "fst (renderSchoolFeatures ?h1 as (Suc idx)) b = ?h1 b"
    by (rule Cons.IH)
  moreover have "?h1 b = h b"
    using Cons.prems by (auto simp: renderSchoolFeature_store)
  ultimately show ?case unfolding renderSchoolFeatures_Cons by simp
qed


lemma SchoolLayer_hidden: "fst (SchoolLayer h False sd) = h" "fst (SchoolLayer h v None) = h"
  by (simp_all add: SchoolLayer_def split: option.splits)



text \<open>
  The fourth school feature of the example is a Point with three coordinates; rendering the
  layer leaves it without a \<open>__key\<close>.
\<close>

theorem render_skips_three_coordinate_point:
  "features exampleSchools ! 3 = 4 \<and>
   geomType (exampleStore 4) = Some ''Point'' \<and>
   key (fst (SchoolLayer exampleStore True (Some exampleSchools)) 4) \<noteq> KeyNum 3"
  by code_simp

text \<open>
  C10, as the code has it.  Rendering the school layer writes \<open>__key = i\<close> to the object of
  every feature at index \<open>i\<close> of \<open>schoolData.features\<close> whose geometry is a Point with
  exactly two coordinates (the features of a parsed dataset are distinct objects), in place:
  properties and geometry of the object stay as they were.  The search index holds the
  reference to the object, not a copy, so the feature that a selection of the item hands to
  App shows the \<open>__key\<close> written by rendering, even when the index was built before.  Every
  other object is left exactly as it was, whether the layer is visible or not: a feature
  that is not a Point, a feature without coordinates, a Point whose number of coordinates is
  not two, and every object that is not a feature of the school dataset.  Such an object
  gets no \<open>__key\<close> from rendering.
\<close>

theorem render_assigns_key_in_place:
  "(distinct (features fc) \<and> i < length (features fc) \<and>
    geomType (h (features fc ! i)) = Some ''Point'' \<and>
    coordsOf (h (features fc ! i)) = Some cs \<and> length cs = 2 \<longrightarrow>
      key (fst (SchoolLayer h True (Some fc)) (features fc ! i)) = KeyNum i \<and>
      properties (fst (SchoolLayer h True (Some fc)) (features fc ! i)) =
        properties (h (features fc ! i)) \<and>
      geometry (fst (SchoolLayer h True (Some fc)) (features fc ! i)) =
        geometry (h (features fc ! i)) \<and>
      schoolItem h (features fc ! i) cs \<in> set (searchableItems h w (Some fc) t) \<and>
      onSelect (schoolItem h (features fc ! i) cs) = Some (features fc ! i) \<and>
      map_option (\<lambda>a. key (fst (SchoolLayer h True (Some fc)) a))
        (onSelect (schoolItem h (features fc ! i) cs)) = Some (KeyNum i)) \<and>
   rendersMarker h b =
     (geomType (h b) = Some ''Point'' \<and> (\<exists>cs'. coordsOf (h b) = Some cs' \<and> length cs' = 2)) \<and>
   (\<not> rendersMarker h b \<longrightarrow> fst (SchoolLayer h v sd) b = h b) \<and>
   (b \<notin> set (features fc) \<longrightarrow> fst (SchoolLayer h v (Some fc)) b = h b)"
proof -
  let ?a = "features fc ! i"
  have pos: "key (fst (SchoolLayer h True (Some fc)) ?a) = KeyNum i \<and>
      properties (fst (SchoolLayer h True (Some fc)) ?a) = properties (h ?a) \<and>
      geometry (fst (SchoolLayer h True (Some fc)) ?a) = geometry (h ?a) \<and>
      schoolItem h ?a cs \<in> set (searchableItems h w (Some fc) t) \<and>
      onSelect (schoolItem h ?a cs) = Some ?a \<and>
      map_option (\<lambda>a. key (fst (SchoolLayer h True (Some fc)) a))
        (onSelect (schoolItem h ?a cs)) = Some (KeyNum i)"
    if d: "distinct (features fc)" and i: "i < length (features fc)"
      and g: "geomType (h ?a) = Some ''Point''" and c: "coordsOf (h ?a) = Some cs"
      and l: "length cs = 2"
  proof -
    have rm: "rendersMarker h ?a"
      using g c l by (simp add: rendersMarker_def)
    have k: "key (fst (SchoolLayer h True (Some fc)) ?a) = KeyNum i"
      using render_key_index [OF d i rm, of 0] by (simp add: SchoolLayer_store)
    have "schoolItem h ?a cs \<in> set (schoolItems h (Some fc))"
      unfolding schoolItems_mem using i g c by (auto intro: nth_mem)
    then have m: "schoolItem h ?a cs \<in> set (searchableItems h w (Some fc) t)"
      by (simp add: searchableItems_eq)
    have s: "onSelect (schoolItem h ?a cs) = Some ?a"
      by (simp add: onSelect_def schoolItem_def)
    show ?thesis
      using k m s by (simp add: SchoolLayer_store render_properties render_geometry)
  qed
  have guard: "rendersMarker h b =
     (geomType (h b) = Some ''Point'' \<and> (\<exists>cs'. coordsOf (h b) = Some cs' \<and> length cs' = 2))"
    by (auto simp: rendersMarker_def split: option.splits)
  have skipped: "fst (SchoolLayer h v sd) b = h b" if "\<not> rendersMarker h b"
  proof (cases "v \<and> sd \<noteq> None")
    case True
    then obtain fc' where "sd = Some fc'" and v by auto
    then show ?thesis using render_not_marker [OF that] by (simp add: SchoolLayer_store)
  next
    case False
    then show ?thesis by (auto simp: SchoolLayer_hidden)
  qed
  have frame: "fst (SchoolLayer h v (Some fc)) b = h b" if "b \<notin> set (features fc)"
    using render_untouched [OF that] by (cases v) (simp_all add: SchoolLayer_store SchoolLayer_hidden)
  show ?thesis using pos guard skipped frame by blast
qed

text \<open>
  The second example school, at index 1: its item is built from the store as it was before
  rendering, and the selection of that item shows the \<open>__key\<close> 1 after rendering.  The
  school with three coordinates (4) and the tree (5), which is not in the school dataset,
  are the objects they were.
\<close>

theorem render_assigns_key_in_place_witness:
  "distinct (features exampleSchools) \<and> (1::nat) < length (features exampleSchools) \<and>
   features exampleSchools ! 1 = 2 \<and>
   key (exampleStore 2) = KeyUndefined \<and>
   key (fst (SchoolLayer exampleStore True (Some exampleSchools)) 2) = KeyNum 1 \<and>
   schoolItem exampleStore 2 [77.6, 12.9] \<in>
     set (searchableItems exampleStore None (Some exampleSchools) None) \<and>
   map_option (\<lambda>a. key (fst (SchoolLayer exampleStore True (Some exampleSchools)) a))
     (onSelect (schoolItem exampleStore 2 [77.6, 12.9])) = Some (KeyNum 1) \<and>
   coordsOf (exampleStore 4) = Some [77.5, 12.8, 920] \<and>
   \<not> rendersMarker exampleStore 4 \<and>
   fst (SchoolLayer exampleStore True (Some exampleSchools)) 4 = exampleStore 4 \<and>
   key (exampleStore 4) = KeyUndefined \<and>
   5 \<notin> set (features exampleSchools) \<and>
   fst (SchoolLayer exampleStore True (Some exampleSchools)) 5 = exampleStore 5"
proof -
  have d: "distinct (features exampleSchools)" by code_simp
  have i: "(1::nat) < length (features exampleSchools)" by code_simp
  have a: "features exampleSchools ! 1 = 2" by code_simp
  have g: "geomType (exampleStore (features exampleSchools ! 1)) = Some ''Point''"
    by code_simp
  have c: "coordsOf (exampleStore (features exampleSchools ! 1)) = Some [77.6, 12.9]"
    by code_simp
  have l: "length [77.6, 12.9 :: real] = 2" by simp
  have u: "key (exampleStore 2) = KeyUndefined" "key (exampleStore 4) = KeyUndefined"
    by code_simp+
  have c4: "coordsOf (exampleStore 4) = Some [77.5, 12.8, 920]" by code_simp
  have n4: "\<not> rendersMarker exampleStore 4" by code_simp
  have n5: "5 \<notin> set (features exampleSchools)" by code_simp
  note four = render_assigns_key_in_place
         [where fc = exampleSchools and i = 1 and h = exampleStore and cs = "[77.6, 12.9]"
            and w = None and t = None and b = 4 and v = True and sd = "Some exampleSchools"]
  note five = render_assigns_key_in_place
         [where fc = exampleSchools and i = 1 and h = exampleStore and cs = "[77.6, 12.9]"
            and w = None and t = None and b = 5 and v = True and sd = "Some exampleSchools"]
  from four d i g c l
  have k: "key (fst (SchoolLayer exampleStore True (Some exampleSchools))
             (features exampleSchools ! 1)) = KeyNum 1"
    and m: "schoolItem exampleStore (features exampleSchools ! 1) [77.6, 12.9] \<in>
             set (searchableItems exampleStore None (Some exampleSchools) None)"
    and s: "map_option (\<lambda>a. key (fst (SchoolLayer exampleStore True (Some exampleSchools)) a))
             (onSelect (schoolItem exampleStore (features exampleSchools ! 1) [77.6, 12.9])) =
           Some (KeyNum 1)"
    by blast+
  from four n4
  have s4: "fst (SchoolLayer exampleStore True (Some exampleSchools)) 4 = exampleStore 4"
    by blast
  from five n5
  have s5: "fst (SchoolLayer exampleStore True (Some exampleSchools)) 5 = exampleStore 5"
    by blast
  show ?thesis using d i a u c4 n4 n5 k m s s4 s5 by simp
qed

section \<open>Loading and dropping datasets\<close>

text \<open>
  The ward request is issued on mount although the ward layer is hidden; once it settles,
  the hidden layer holds its dataset, and showing and hiding the layer does not drop it.
\<close>

theorem ward_data_kept_when_hidden:
  "\<not> layersVisibility mount ward \<and>
   inflight mount = [WardFetch, SchoolFetch] \<and>
   \<not> layersVisibility (run exampleStore [WardFetchSettled (Some exampleWards)] mount) ward \<and>
   wardData (run exampleStore [WardFetchSettled (Some exampleWards)] mount) =
     Some exampleWards \<and>
   \<not> layersVisibility
       (run exampleStore [WardFetchSettled (Some exampleWards), Toggle ward, Toggle ward]
          mount) ward \<and>
   wardData
       (run exampleStore [WardFetchSettled (Some exampleWards), Toggle ward, Toggle ward]
          mount) = Some exampleWards"
  by code_simp

lemma toggleLayer_visibility:
  "layersVisibility (outcome_state (toggleLayer h l st)) =
     (layersVisibility st)(l := \<not> layersVisibility st l)"
  by (simp add: toggleLayer_def Let_def split: sum.splits)

lemma toggleLayer_data:
  "wardData (outcome_state (toggleLayer h l st)) = wardData st"
  "schoolData (outcome_state (toggleLayer h l st)) = schoolData st"
  "treeData (outcome_state (toggleLayer h l st)) = treeData st"
  "inflight (outcome_state (toggleLayer h l st)) = inflight st"
  by (simp_all add: toggleLayer_def Let_def split: sum.splits)

text \<open>
  C5, as the code has it.  For the tree and the school layer: toggling the visible layer
  hides it and sets its dataset to \<open>null\<close>, starting no request; toggling the hidden layer
  shows it and starts its request, leaving the dataset as it was until the request settles.
  No toggle starts any other request.  The ward dataset is requested once on mount,
  whatever the ward layer's visibility, and no toggle changes it.
\<close>

theorem hide_drops_tree_and_school_data:
  "((l = trees \<or> l = schools) \<and> layersVisibility st l \<longrightarrow>
      \<not> layersVisibility (step h (Toggle l) st) l \<and>
      layerData l (step h (Toggle l) st) = None \<and>
      inflight (step h (Toggle l) st) = inflight st) \<and>
   ((l = trees \<or> l = schools) \<and> \<not> layersVisibility st l \<longrightarrow>
      layersVisibility (step h (Toggle l) st) l \<and>
      layerData l (step h (Toggle l) st) = layerData l st \<and>
      inflight (step h (Toggle l) st) = inflight st @ requestOf l) \<and>
   wardData (step h (Toggle l) st) = wardData st \<and>
   set (inflight (step h (Toggle l) st)) \<subseteq> set (inflight st) \<union> {TreeLoad, SchoolFetch} \<and>
   WardFetch \<in> set (inflight mount) \<and> \<not> layersVisibility mount ward"
proof -
  have vis: "layersVisibility (outcome_state (toggleLayer h l st)) l = (\<not> layersVisibility st l)"
    by (simp add: toggleLayer_visibility)
  have a: "(l = trees \<or> l = schools) \<and> layersVisibility st l \<longrightarrow>
      \<not> layersVisibility (step h (Toggle l) st) l \<and>
      layerData l (step h (Toggle l) st) = None \<and>
      inflight (step h (Toggle l) st) = inflight st"
    using vis by (auto simp: Let_def treeEffect_def schoolEffect_def layerData_def toggleLayer_data)
  have b: "(l = trees \<or> l = schools) \<and> \<not> layersVisibility st l \<longrightarrow>
      layersVisibility (step h (Toggle l) st) l \<and>
      layerData l (step h (Toggle l) st) = layerData l st \<and>
      inflight (step h (Toggle l) st) = inflight st @ requestOf l"
    using vis
    by (auto simp: Let_def treeEffect_def schoolEffect_def layerData_def requestOf_def
        toggleLayer_data)
  have c: "wardData (step h (Toggle l) st) = wardData st"
    by (simp add: Let_def treeEffect_def schoolEffect_def toggleLayer_data)
  have d: "set (inflight (step h (Toggle l) st)) \<subseteq> set (inflight st) \<union> {TreeLoad, SchoolFetch}"
    by (auto simp: Let_def treeEffect_def schoolEffect_def toggleLayer_data split: if_splits)
  have e: "WardFetch \<in> set (inflight mount) \<and> \<not> layersVisibility mount ward"
    by (simp add: mount_def initialState_def treeEffect_def wardEffect_def schoolEffect_def)
  show ?thesis using a b c d e by blast
qed

text \<open>
  On the example state, where wards and schools are loaded and only the school layer is
  visible: hiding the schools drops their data, showing the trees starts the tree load, and
  toggling the wards keeps the ward data.
\<close>

theorem hide_drops_tree_and_school_data_witness:
  "layersVisibility loadedState schools \<and>
   schoolData loadedState = Some exampleSchools \<and>
   \<not> layersVisibility (step renderedStore (Toggle schools) loadedState) schools \<and>
   schoolData (step renderedStore (Toggle schools) loadedState) = None \<and>
   \<not> layersVisibility loadedState trees \<and>
   layersVisibility (step renderedStore (Toggle trees) loadedState) trees \<and>
   inflight (step renderedStore (Toggle trees) loadedState) = [TreeLoad] \<and>
   wardData (step renderedStore (Toggle ward) loadedState) = Some exampleWards"
proof -
  have v: "layersVisibility loadedState schools" by code_simp
  have s: "schoolData loadedState = Some exampleSchools" by code_simp
  have t: "\<not> layersVisibility loadedState trees" by code_simp
  have i: "inflight loadedState = []" by code_simp
  have w: "wardData loadedState = Some exampleWards" by code_simp
  from hide_drops_tree_and_school_data [of schools loadedState renderedStore]
       hide_drops_tree_and_school_data [of trees loadedState renderedStore]
       hide_drops_tree_and_school_data [of ward loadedState renderedStore]
  show ?thesis using v s t i w by (simp add: layerData_def requestOf_def)
qed

section \<open>Runs of App: selecting a search result, then toggling\<close>































text \<open>
  C4, at an input where the code departs from it.  The ward dataset holds a ward without a
  \<open>KGISWardName\<close>; the search lists it as \<open>Unnamed Ward\<close>.  The user shows the ward layer,
  selects that ward from the results of the query \<open>unnamed\<close> and hides the ward layer again:
  the layer is hidden and the selection is still the ward, because the guard of
  \<open>toggleLayer\<close> recognises a selected ward by that property.  A selected ward that has the
  property is cleared by the same steps.
\<close>

theorem hiding_wards_keeps_unnamed_ward_selected:
  "(case appRun storeWithUnnamedWard
           [WardFetchSettled (Some wardsWithUnnamed), Toggle ward] of
      Running h st \<Rightarrow>
        layersVisibility st ward \<and> openPopupFeature st = None \<and>
        map item_feature
          (queryEffect h (wardData st) (schoolData st) (treeData st) ''unnamed'') = [6] \<and>
        geomType (h 6) = Some ''Polygon'' \<and> wardNameProp (h 6) = None
    | Crashed \<Rightarrow> False) \<and>
   (case appRun storeWithUnnamedWard
           [WardFetchSettled (Some wardsWithUnnamed), Toggle ward, Select ''unnamed'' 0] of
      Running h st \<Rightarrow> layersVisibility st ward \<and> openPopupFeature st = Some 6
    | Crashed \<Rightarrow> False) \<and>
   (case appRun storeWithUnnamedWard
           [WardFetchSettled (Some wardsWithUnnamed), Toggle ward, Select ''unnamed'' 0,
            Toggle ward] of
      Running h st \<Rightarrow> \<not> layersVisibility st ward \<and> openPopupFeature st = Some 6
    | Crashed \<Rightarrow> False) \<and>
   (case appRun storeWithUnnamedWard
           [WardFetchSettled (Some wardsWithUnnamed), Toggle ward, Select ''hebbal'' 0] of
      Running h st \<Rightarrow> layersVisibility st ward \<and> openPopupFeature st = Some 0
    | Crashed \<Rightarrow> False) \<and>
   (case appRun storeWithUnnamedWard
           [WardFetchSettled (Some wardsWithUnnamed), Toggle ward, Select ''hebbal'' 0,
            Toggle ward] of
      Running h st \<Rightarrow> \<not> layersVisibility st ward \<and> openPopupFeature st = None
    | Crashed \<Rightarrow> False)"
  by code_simp

section \<open>The sharded tree load\<close>

lemma partChain_features:
  "allFeatures (partChain maxArgs i r st) = allFeatures st @ mergedFeatures maxArgs r"
  by (simp add: partChain_def mergedFeatures_def partMerged_def partFeatures_def
      split: part_response.splits option.splits)

lemma partChain_pending: "pending (partChain maxArgs i r st) = pending st"
  by (simp add: partChain_def split: part_response.splits option.splits)

lemma partChain_calls: "setTreeDataCalls (partChain maxArgs i r st) = setTreeDataCalls st"
  by (simp add: partChain_def split: part_response.splits option.splits)

lemma partChain_console:
  "console (partChain maxArgs i r st) = console st @ partLog maxArgs i r"
  by (simp add: partChain_def partLog_def partMerged_def partOk_def
      split: part_response.splits option.splits)

lemma settlePart_not_pending: "i \<notin> set (pending st) \<Longrightarrow> settlePart maxArgs resp st i = st"
  by (simp add: settlePart_def)

lemma settlePart_pending: "pending (settlePart maxArgs resp st i) = removeAll i (pending st)"
  by (simp add: settlePart_def Let_def partChain_pending)

lemma settlePart_features:
  "i \<in> set (pending st) \<Longrightarrow>
   allFeatures (settlePart maxArgs resp st i) = allFeatures st @ mergedFeatures maxArgs (resp i)"
  by (simp add: settlePart_def Let_def partChain_features)

lemma settlePart_console:
  "i \<in> set (pending st) \<Longrightarrow>
   console (settlePart maxArgs resp st i) = console st @ partLog maxArgs i (resp i)"
  by (simp add: settlePart_def Let_def partChain_console)

lemma settlePart_calls:
  "i \<in> set (pending st) \<Longrightarrow>
   setTreeDataCalls (settlePart maxArgs resp st i) =
     setTreeDataCalls st @
       (if removeAll i (pending st) = []
        then [\<lparr> fc_type = ''FeatureCollection'',
                features = allFeatures (settlePart maxArgs resp st i) \<rparr>]
        else [])"
  by (simp add: settlePart_def Let_def partChain_pending partChain_calls)

lemma pending_foldl:
  "pending (foldl (settlePart maxArgs resp) st sched) =
     filter (\<lambda>j. j \<notin> set sched) (pending st)"
proof (induction sched arbitrary: st)
  case Nil
  show ?case by simp
next
  case (Cons i sched)
  have "filter (\<lambda>j. j \<notin> set sched) (removeAll i xs) =
        filter (\<lambda>j. j \<notin> set (i # sched)) xs" for xs
    by (induction xs) auto
  then show ?case by (simp add: Cons.IH settlePart_pending)
qed

lemma features_foldl:
  "distinct sched \<Longrightarrow> set sched \<subseteq> set (pending st) \<Longrightarrow>
   allFeatures (foldl (settlePart maxArgs resp) st sched) =
     allFeatures st @ concat (map (\<lambda>i. mergedFeatures maxArgs (resp i)) sched)"
proof (induction sched arbitrary: st)
  case Nil
  show ?case by simp
next
  case (Cons i sched)
  have "set sched \<subseteq> set (pending (settlePart maxArgs resp st i))"
    using Cons.prems by (auto simp: settlePart_pending)
  with Cons show ?case by (simp add: settlePart_features)
qed

lemma console_foldl:
  "distinct sched \<Longrightarrow> set sched \<subseteq> set (pending st) \<Longrightarrow>
   console (foldl (settlePart maxArgs resp) st sched) =
     console st @ concat (map (\<lambda>i. partLog maxArgs i (resp i)) sched)"
proof (induction sched arbitrary: st)
  case Nil
  show ?case by simp
next
  case (Cons i sched)
  have "set sched \<subseteq> set (pending (settlePart maxArgs resp st i))"
    using Cons.prems by (auto simp: settlePart_pending)
  with Cons show ?case by (simp add: settlePart_console)
qed

lemma calls_foldl_none:
  "setTreeDataCalls st = [] \<Longrightarrow> \<not> set (pending st) \<subseteq> set sched \<Longrightarrow>
   setTreeDataCalls (foldl (settlePart maxArgs resp) st sched) = []"
proof (induction sched rule: rev_induct)
  case Nil
  then show ?case by simp
next
  case (snoc i sched)
  let ?s = "foldl (settlePart maxArgs resp) st sched"
  have c: "setTreeDataCalls ?s = []" using snoc by auto
  show ?case
  proof (cases "i \<in> set (pending ?s)")
    case False
    then show ?thesis using c by (simp add: settlePart_not_pending)
  next
    case True
    have "removeAll i (pending ?s) \<noteq> []"
      using snoc.prems(2) by (auto simp: pending_foldl removeAll_filter_not_eq filter_empty_conv)
    then show ?thesis using c True by (simp add: settlePart_calls)
  qed
qed

lemma mset_concat_map: "mset (concat (map f xs)) = (\<Sum>x\<in>#mset xs. mset (f x))"
  by (induction xs) simp_all

lemma mset_concat_perm:
  "mset xs = mset ys \<Longrightarrow> mset (concat (map f xs)) = mset (concat (map f ys))"
  by (simp add: mset_concat_map)

lemma schedule_perm:
  assumes "distinct schedule" and "set schedule = {1..6::nat}"
  shows "mset schedule = mset [1 ..< 7]"
proof -
  have "{1..6::nat} = {1 ..< Suc 6}"
    by (rule atLeastLessThanSuc_atLeastAtMost [symmetric])
  also have "\<dots> = set [1 ..< Suc 6]"
    by (rule atLeastLessThan_upt)
  finally have "set schedule = set [1 ..< Suc 6]"
    using assms(2) by (simp only:)
  then have "mset schedule = mset [1 ..< Suc 6]"
    using set_eq_iff_mset_eq_distinct [OF assms(1) distinct_upt] by blast
  moreover have "Suc 6 = 7" by simp
  ultimately show ?thesis by (simp only:)
qed

lemma mergedFeatures_within:
  "length (partFeatures r) \<le> maxArgs \<Longrightarrow> mergedFeatures maxArgs r = partFeatures r"
  by (auto simp: mergedFeatures_def partMerged_def partFeatures_def
      split: part_response.splits option.splits)

lemma mergedFeatures_not_ok: "\<not> partOk r \<Longrightarrow> mergedFeatures maxArgs r = []"
  by (auto simp: mergedFeatures_def partMerged_def partOk_def
      split: part_response.splits option.splits)

lemma oversized_part:
  "partOk r \<Longrightarrow> maxArgs < length (partFeatures r) \<Longrightarrow>
   mergedFeatures maxArgs r = [] \<and> partLog maxArgs i r = [errorLoading i]"
  by (auto simp: mergedFeatures_def partLog_def partMerged_def partFeatures_def partOk_def
      split: part_response.splits option.splits)

text \<open>
  C1, and the input at which the code departs from it.  Showing the hidden tree layer starts
  one load.  Whatever the order in which the six parts settle, \<open>setTreeData\<close> is not called
  while a part is still pending and is called exactly once when the last part has settled,
  with a FeatureCollection whose features are those of the merged parts, each once, in the
  order in which the parts settled; every other part contributes nothing and leaves one
  console message.  The merged parts are the parts that were fetched and parsed
  successfully and whose \<open>features\<close> array has no more elements than a call takes
  arguments: when all parts are within that limit, the collection holds exactly the
  features of the parts fetched and parsed successfully.  A part fetched and parsed
  successfully whose array is longer is not merged: the spread call throws, the \<open>catch\<close>
  logs the error as it logs a failed request, and the part contributes nothing.
\<close>

theorem loadTreeDataParts_drops_oversized_part:
  assumes "distinct schedule" and "set schedule = {1..6}"
  shows "(\<not> layersVisibility st trees \<longrightarrow>
            inflight (step h (Toggle trees) st) = inflight st @ [TreeLoad]) \<and>
         (\<forall>k < length schedule.
            setTreeDataCalls (loadTreeDataParts maxArgs resp (take k schedule)) = []) \<and>
         setTreeDataCalls (loadTreeDataParts maxArgs resp schedule) =
           [\<lparr> fc_type = ''FeatureCollection'',
              features = allFeatures (loadTreeDataParts maxArgs resp schedule) \<rparr>] \<and>
         allFeatures (loadTreeDataParts maxArgs resp schedule) =
           concat (map (\<lambda>i. mergedFeatures maxArgs (resp i)) schedule) \<and>
         mset (allFeatures (loadTreeDataParts maxArgs resp schedule)) =
           mset (concat (map (\<lambda>i. mergedFeatures maxArgs (resp i)) [1, 2, 3, 4, 5, 6])) \<and>
         console (loadTreeDataParts maxArgs resp schedule) =
           concat (map (\<lambda>i. partLog maxArgs i (resp i)) schedule) \<and>
         (\<forall>i. partOk (resp i) \<and> maxArgs < length (partFeatures (resp i)) \<longrightarrow>
            mergedFeatures maxArgs (resp i) = [] \<and>
            partLog maxArgs i (resp i) = [errorLoading i]) \<and>
         ((\<forall>i \<in> {1..6}. length (partFeatures (resp i)) \<le> maxArgs) \<longrightarrow>
            mset (allFeatures (loadTreeDataParts maxArgs resp schedule)) =
              mset (concat (map (\<lambda>i. partFeatures (resp i)) [1, 2, 3, 4, 5, 6]))) \<and>
         (\<not> partOk (resp 3) \<longrightarrow>
            mset (allFeatures (loadTreeDataParts maxArgs resp schedule)) =
              mset (concat (map (\<lambda>i. mergedFeatures maxArgs (resp i)) [1, 2, 4, 5, 6])))"
proof -
  have upt: "[1 ..< 7] = [1, 2, 3, 4, 5, 6::nat]" by code_simp
  have perm: "mset schedule = mset [1, 2, 3, 4, 5, 6::nat]"
    using schedule_perm [OF assms] unfolding upt .
  have sub: "set schedule \<subseteq> set (pending issueAll)"
    using assms(2) by (auto simp: issueAll_def)
  have early: "setTreeDataCalls (loadTreeDataParts maxArgs resp (take k schedule)) = []"
    if "k < length schedule" for k
  proof -
    have "card (set (take k schedule)) \<le> k"
      by (metis card_length length_take min.cobounded2 order_trans)
    moreover have "card (set (pending issueAll)) = length schedule"
      using assms distinct_card [of schedule] sub by (auto simp: issueAll_def)
    ultimately have "\<not> set (pending issueAll) \<subseteq> set (take k schedule)"
      using that by (metis List.finite_set card_mono not_less order_trans)
    then show ?thesis
      unfolding loadTreeDataParts_def by (intro calls_foldl_none) (simp_all add: issueAll_def)
  qed
  have feats: "allFeatures (loadTreeDataParts maxArgs resp schedule) =
                 concat (map (\<lambda>i. mergedFeatures maxArgs (resp i)) schedule)"
    unfolding loadTreeDataParts_def
    using features_foldl [OF assms(1) sub, of maxArgs resp] by (simp add: issueAll_def)
  have msetf: "mset (allFeatures (loadTreeDataParts maxArgs resp schedule)) =
           mset (concat (map (\<lambda>i. mergedFeatures maxArgs (resp i)) [1, 2, 3, 4, 5, 6]))"
    unfolding feats by (rule mset_concat_perm [OF perm])
  have logs: "console (loadTreeDataParts maxArgs resp schedule) =
                concat (map (\<lambda>i. partLog maxArgs i (resp i)) schedule)"
    unfolding loadTreeDataParts_def
    using console_foldl [OF assms(1) sub, of maxArgs resp] by (simp add: issueAll_def)
  have once: "setTreeDataCalls (loadTreeDataParts maxArgs resp schedule) =
           [\<lparr> fc_type = ''FeatureCollection'',
              features = allFeatures (loadTreeDataParts maxArgs resp schedule) \<rparr>]"
  proof -
    have ne: "schedule \<noteq> []" using assms(2) by auto
    then obtain sched i where split: "schedule = sched @ [i]"
      by (metis rev_exhaust)
    let ?s = "foldl (settlePart maxArgs resp) issueAll sched"
    have "length sched < length schedule" using split by simp
    from early [OF this] have c: "setTreeDataCalls ?s = []"
      by (simp add: split loadTreeDataParts_def)
    have p: "pending ?s = filter (\<lambda>j. j \<notin> set sched) [1, 2, 3, 4, 5, 6]"
      unfolding pending_foldl issueAll_def upt by simp
    have S: "set [1, 2, 3, 4, 5, 6::nat] = insert i (set sched)"
      using perm split by (metis list.simps(15) rotate1.simps(2) set_mset_mset set_rotate1)
    have inot: "i \<notin> set sched" using assms(1) split by simp
    have i: "i \<in> set (pending ?s)"
      unfolding p set_filter S using inot by blast
    have "filter (\<lambda>j. j \<noteq> i \<and> j \<notin> set sched) [1, 2, 3, 4, 5, 6] = []"
      unfolding filter_empty_conv S by blast
    then have "removeAll i (pending ?s) = []"
      unfolding p removeAll_filter_not_eq filter_filter by (simp add: conj_commute neq_commute)
    then show ?thesis
      using c i by (simp add: split loadTreeDataParts_def settlePart_calls)
  qed
  have within: "mset (allFeatures (loadTreeDataParts maxArgs resp schedule)) =
              mset (concat (map (\<lambda>i. partFeatures (resp i)) [1, 2, 3, 4, 5, 6]))"
    if "\<forall>i \<in> {1..6}. length (partFeatures (resp i)) \<le> maxArgs"
    unfolding msetf using that by (simp add: mergedFeatures_within)
  have start: "inflight (step h (Toggle trees) st) = inflight st @ [TreeLoad]"
    if "\<not> layersVisibility st trees"
    using that by (simp add: Let_def treeEffect_def toggleLayer_visibility toggleLayer_data)
  have three: "mset (allFeatures (loadTreeDataParts maxArgs resp schedule)) =
              mset (concat (map (\<lambda>i. mergedFeatures maxArgs (resp i)) [1, 2, 4, 5, 6]))"
    if "\<not> partOk (resp 3)"
    unfolding msetf using mergedFeatures_not_ok [OF that] by simp
  show ?thesis using start early once feats msetf logs within three oversized_part by blast
qed

lemma length_bigPart: "length bigPart = 65537"
  unfolding bigPart_def by (simp only: length_upt)

text \<open>
  The tree layer of the example state is hidden; showing it starts the load.  All six parts
  are fetched and parsed successfully and settle in the order 2, 5, 1, 6, 3, 4; the second
  has 65537 features and the engine takes 65536 arguments.  The dataset is set once, without
  the features of the second part, and the console holds one error, for the second part.
  With six small parts of which the third answers 404, the dataset holds the features of
  the parts 1, 2, 4, 5 and 6, and the console one error, for the third part.
\<close>

theorem loadTreeDataParts_drops_oversized_part_witness:
  "\<not> layersVisibility loadedState trees \<and>
   inflight (step renderedStore (Toggle trees) loadedState) = [TreeLoad] \<and>
   distinct exampleSchedule \<and> set exampleSchedule = {1..6} \<and>
   partOk (bigParts 2) \<and> partFeatures (bigParts 2) = bigPart \<and>
   argumentLimit < length bigPart \<and>
   setTreeDataCalls (loadTreeDataParts argumentLimit bigParts (take 5 exampleSchedule)) = [] \<and>
   setTreeDataCalls (loadTreeDataParts argumentLimit bigParts exampleSchedule) =
     [\<lparr> fc_type = ''FeatureCollection'',
        features = [50, 51, 10, 11, 60, 61, 30, 31, 40, 41] \<rparr>] \<and>
   console (loadTreeDataParts argumentLimit bigParts exampleSchedule) = [errorLoading 2] \<and>
   \<not> partOk (exampleParts 3) \<and>
   allFeatures (loadTreeDataParts argumentLimit exampleParts exampleSchedule) =
     [20, 21, 50, 51, 10, 11, 60, 61, 40, 41] \<and>
   console (loadTreeDataParts argumentLimit exampleParts exampleSchedule) = [errorLoading 3]"
proof -
  have d: "distinct exampleSchedule" by code_simp
  have s: "set exampleSchedule = {1..6}" by (auto simp: exampleSchedule_def)
  have ok: "partOk (bigParts 2)" by (simp add: partOk_def bigParts_def)
  have pf: "partFeatures (bigParts 2) = bigPart" by (simp add: partFeatures_def bigParts_def)
  have big: "argumentLimit < length bigPart" by (simp add: length_bigPart argumentLimit_def)
  have k: "(5::nat) < length exampleSchedule" by code_simp
  have small: "mergedFeatures argumentLimit (bigParts i) = [10 * i, 10 * i + 1]"
    if "i \<noteq> 2" for i
    using that
    by (simp add: mergedFeatures_def partMerged_def partFeatures_def bigParts_def
        argumentLimit_def)
  have smallLog: "partLog argumentLimit i (bigParts i) = []" if "i \<noteq> 2" for i
    using that by (simp add: partLog_def partMerged_def bigParts_def argumentLimit_def)
  have v: "\<not> layersVisibility loadedState trees" by code_simp
  have e: "inflight loadedState = []" by code_simp
  note inst = loadTreeDataParts_drops_oversized_part
    [OF d s, of loadedState renderedStore argumentLimit bigParts]
  from inst v e have tr: "inflight (step renderedStore (Toggle trees) loadedState) = [TreeLoad]"
    by simp
  from inst ok big pf have two: "mergedFeatures argumentLimit (bigParts 2) = []"
    "partLog argumentLimit 2 (bigParts 2) = [errorLoading 2]"
    by auto
  from inst k
  have "setTreeDataCalls (loadTreeDataParts argumentLimit bigParts (take 5 exampleSchedule)) = []"
    by blast
  moreover from inst
  have "allFeatures (loadTreeDataParts argumentLimit bigParts exampleSchedule) =
          [50, 51, 10, 11, 60, 61, 30, 31, 40, 41]"
    by (simp add: exampleSchedule_def small two)
  moreover from inst
  have "console (loadTreeDataParts argumentLimit bigParts exampleSchedule) = [errorLoading 2]"
    by (simp add: exampleSchedule_def smallLog two)
  moreover from inst
  have "setTreeDataCalls (loadTreeDataParts argumentLimit bigParts exampleSchedule) =
     [\<lparr> fc_type = ''FeatureCollection'',
        features = allFeatures (loadTreeDataParts argumentLimit bigParts exampleSchedule) \<rparr>]"
    by blast
  moreover have n3: "\<not> partOk (exampleParts 3)"
    by (simp add: partOk_def exampleParts_def)
  moreover have "allFeatures (loadTreeDataParts argumentLimit exampleParts exampleSchedule) =
          [20, 21, 50, 51, 10, 11, 60, 61, 40, 41]"
    using loadTreeDataParts_drops_oversized_part
      [OF d s, of loadedState renderedStore argumentLimit exampleParts]
    by (simp add: exampleSchedule_def mergedFeatures_def partMerged_def partFeatures_def
        exampleParts_def argumentLimit_def)
  moreover have "console (loadTreeDataParts argumentLimit exampleParts exampleSchedule) =
          [errorLoading 3]"
    using loadTreeDataParts_drops_oversized_part
      [OF d s, of loadedState renderedStore argumentLimit exampleParts]
    by (simp add: exampleSchedule_def partLog_def partMerged_def partOk_def
        exampleParts_def argumentLimit_def)
  ultimately show ?thesis using v tr d s ok pf big by simp
qed

section \<open>Raster normalization\<close>

lemma loadTile_loaded:
  "map fst (loadedGeorasters (loadTile resp st f)) =
     map fst (loadedGeorasters st) @ loadedTiles [f] resp"
  by (simp add: loadTile_def loadedTiles_def Let_def split: tile_response.splits option.splits)

lemma loadTile_mins:
  "allMins (loadTile resp st f) = allMins st @ declaredMins (loadedTiles [f] resp)"
  by (simp add: loadTile_def loadedTiles_def declaredMins_def List.map_filter_simps Let_def
      split: tile_response.splits option.splits)

lemma loadTile_maxs:
  "allMaxs (loadTile resp st f) = allMaxs st @ declaredMaxs (loadedTiles [f] resp)"
  by (simp add: loadTile_def loadedTiles_def declaredMaxs_def List.map_filter_simps Let_def
      split: tile_response.splits option.splits)

lemma loadedTiles_Cons: "loadedTiles (f # fs) resp = loadedTiles [f] resp @ loadedTiles fs resp"
  by (simp add: loadedTiles_def)

lemma map_filter_append: "List.map_filter g (xs @ ys) = List.map_filter g xs @ List.map_filter g ys"
  by (simp add: List.map_filter_def)

lemma foldl_loadTile:
  "map fst (loadedGeorasters (foldl (loadTile resp) st fs)) =
     map fst (loadedGeorasters st) @ loadedTiles fs resp \<and>
   allMins (foldl (loadTile resp) st fs) = allMins st @ declaredMins (loadedTiles fs resp) \<and>
   allMaxs (foldl (loadTile resp) st fs) = allMaxs st @ declaredMaxs (loadedTiles fs resp)"
proof (induction fs arbitrary: st)
  case Nil
  show ?case by (simp add: loadedTiles_def declaredMins_def declaredMaxs_def List.map_filter_simps)
next
  case (Cons f fs)
  show ?case
    using Cons.IH [of "loadTile resp st f"]
    by (simp add: loadTile_loaded loadTile_mins loadTile_maxs loadedTiles_Cons [of f fs]
        declaredMins_def declaredMaxs_def map_filter_append)
qed

lemma firstPass_facts:
  "map fst (loadedGeorasters (firstPass fs resp)) = loadedTiles fs resp"
  "allMins (firstPass fs resp) = declaredMins (loadedTiles fs resp)"
  "allMaxs (firstPass fs resp) = declaredMaxs (loadedTiles fs resp)"
  by (simp_all add: firstPass_def foldl_loadTile)

lemma Math_min_Min: "Math_min x xs = Min (set (x # xs))"
  unfolding Math_min_def by (rule Min.set_eq_fold [symmetric])

lemma Math_max_Max: "Math_max x xs = Max (set (x # xs))"
  unfolding Math_max_def by (rule Max.set_eq_fold [symmetric])

lemma loadGeoRasters_eq:
  "loadGeoRasters fs resp =
     (if declaredMins (loadedTiles fs resp) = [] \<or> declaredMaxs (loadedTiles fs resp) = []
      then []
      else map (\<lambda>g. \<lparr> layer_georaster = g,
                        layer_colorFn = spec_colorFn (loadedTiles fs resp) \<rparr>)
             (loadedTiles fs resp))"
proof -
  let ?st = "firstPass fs resp"
  let ?tiles = "loadedTiles fs resp"
  have empty: "declaredMins ?tiles = []" if "loadedGeorasters ?st = []"
    using that firstPass_facts(1) [of fs resp]
    by (simp add: declaredMins_def)
  have mp: "map (\<lambda>(g, n). \<lparr> layer_georaster = g, layer_colorFn = c \<rparr>) (loadedGeorasters ?st) =
            map (\<lambda>g. \<lparr> layer_georaster = g, layer_colorFn = c \<rparr>) ?tiles" for c
    unfolding firstPass_facts(1) [symmetric] by (simp add: case_prod_unfold comp_def)
  show ?thesis
  proof (cases "declaredMins ?tiles")
    case Nil
    then show ?thesis
      by (simp add: loadGeoRasters_def Let_def firstPass_facts)
  next
    case lo: (Cons m ms)
    show ?thesis
    proof (cases "declaredMaxs ?tiles")
      case Nil
      then show ?thesis
        by (simp add: loadGeoRasters_def Let_def firstPass_facts split: list.splits)
    next
      case hi: (Cons x xs)
      have ne: "loadedGeorasters ?st \<noteq> []" using empty lo by auto
      show ?thesis
        unfolding loadGeoRasters_def Let_def
        using ne
        by (simp add: firstPass_facts lo hi mp Math_min_Min Math_max_Max spec_colorFn_def spec_globalMin_def spec_globalMax_def)
    qed
  qed
qed

text \<open>
  C2.  When some loaded tile declares a minimum and some loaded tile declares a maximum,
  one layer is added per loaded tile, and every layer carries the same color function: the
  one built from the least declared minimum and the greatest declared maximum over all
  loaded tiles (otherwise no layer is added).  So a pixel value gets the same color in
  every tile.  When the declared minima are 0 and 50 and the declared maxima 100 and 200,
  the global range is 0 to 200 and the pixel value 100 is drawn as rgb(127, 127, 127) in
  every tile.
\<close>

theorem loadGeoRasters_global_normalization:
  "loadGeoRasters fs resp =
     (if declaredMins (loadedTiles fs resp) = [] \<or> declaredMaxs (loadedTiles fs resp) = []
      then []
      else map (\<lambda>g. \<lparr> layer_georaster = g,
                        layer_colorFn = spec_colorFn (loadedTiles fs resp) \<rparr>)
             (loadedTiles fs resp)) \<and>
   (\<forall>L1 \<in> set (loadGeoRasters fs resp). \<forall>L2 \<in> set (loadGeoRasters fs resp).
      \<forall>v. layer_colorFn L1 v = layer_colorFn L2 v) \<and>
   (declaredMins (loadedTiles fs resp) = [0, 50] \<and>
    declaredMaxs (loadedTiles fs resp) = [100, 200] \<longrightarrow>
      spec_globalMin (loadedTiles fs resp) = 0 \<and>
      spec_globalMax (loadedTiles fs resp) = 200 \<and>
      (\<forall>L \<in> set (loadGeoRasters fs resp).
         layer_colorFn L [PNum 100] = Some (Rgb 127 127 127)))"
proof -
  have same: "\<forall>L1 \<in> set (loadGeoRasters fs resp). \<forall>L2 \<in> set (loadGeoRasters fs resp).
      \<forall>v. layer_colorFn L1 v = layer_colorFn L2 v"
    unfolding loadGeoRasters_eq by auto
  have ex: "spec_globalMin (loadedTiles fs resp) = 0 \<and>
      spec_globalMax (loadedTiles fs resp) = 200 \<and>
      (\<forall>L \<in> set (loadGeoRasters fs resp).
         layer_colorFn L [PNum 100] = Some (Rgb 127 127 127))"
    if lo: "declaredMins (loadedTiles fs resp) = [0, 50]"
      and hi: "declaredMaxs (loadedTiles fs resp) = [100, 200]"
  proof -
    have c: "pixelValuesToColorFn 0 200 [PNum 100] = Some (Rgb 127 127 127)"
      by (simp add: pixelValuesToColorFn_def Let_def)
    have mn: "spec_globalMin (loadedTiles fs resp) = 0" by (simp add: spec_globalMin_def lo)
    have mx: "spec_globalMax (loadedTiles fs resp) = 200" by (simp add: spec_globalMax_def hi)
    have "spec_colorFn (loadedTiles fs resp) [PNum 100] = Some (Rgb 127 127 127)"
      using c by (simp add: spec_colorFn_def mn mx)
    then show ?thesis
      unfolding loadGeoRasters_eq using mn mx by (auto simp: lo hi)
  qed
  show ?thesis using loadGeoRasters_eq [of fs resp] same ex by blast
qed

text \<open>
  The three DEM files, of which two load with the declared ranges [0, 100] and [50, 200].
\<close>

theorem loadGeoRasters_global_normalization_witness:
  "declaredMins (loadedTiles demFiles exampleTiles) = [0, 50] \<and>
   declaredMaxs (loadedTiles demFiles exampleTiles) = [100, 200] \<and>
   spec_globalMin (loadedTiles demFiles exampleTiles) = 0 \<and>
   spec_globalMax (loadedTiles demFiles exampleTiles) = 200 \<and>
   map (\<lambda>L. layer_colorFn L [PNum 100]) (loadGeoRasters demFiles exampleTiles) =
     [Some (Rgb 127 127 127), Some (Rgb 127 127 127)]"
proof -
  have lo: "declaredMins (loadedTiles demFiles exampleTiles) = [0, 50]" by code_simp
  have hi: "declaredMaxs (loadedTiles demFiles exampleTiles) = [100, 200]" by code_simp
  have n: "length (loadedTiles demFiles exampleTiles) = 2" by code_simp
  note inst = loadGeoRasters_global_normalization [of demFiles exampleTiles]
  from inst lo hi have g: "spec_globalMin (loadedTiles demFiles exampleTiles) = 0 \<and>
      spec_globalMax (loadedTiles demFiles exampleTiles) = 200 \<and>
      (\<forall>L \<in> set (loadGeoRasters demFiles exampleTiles).
         layer_colorFn L [PNum 100] = Some (Rgb 127 127 127))"
    by blast
  from inst lo hi n have len: "length (loadGeoRasters demFiles exampleTiles) = 2"
    by simp
  have "map (\<lambda>L. layer_colorFn L [PNum 100]) (loadGeoRasters demFiles exampleTiles) =
          replicate (length (loadGeoRasters demFiles exampleTiles)) (Some (Rgb 127 127 127))"
    using g by (simp add: map_replicate_const [symmetric] cong: map_cong)
  then show ?thesis using lo hi g len by (simp add: numeral_2_eq_2)
qed

section \<open>Bookmarks\<close>

subsection \<open>Parsing what was written\<close>

lemma digit_char_digit: "d < 10 \<Longrightarrow> is_digit (digit_char d) \<and> digit_val (digit_char d) = d"
  by (simp add: is_digit_def digit_char_def digit_val_def)

lemma takeWhile_digits:
  "all_digits ds \<Longrightarrow> rest = [] \<or> \<not> is_digit (hd rest) \<Longrightarrow>
   takeWhile is_digit (map digit_char ds @ rest) = map digit_char ds \<and>
   dropWhile is_digit (map digit_char ds @ rest) = rest"
proof (induction ds)
  case Nil
  then show ?case by (cases rest) auto
next
  case (Cons d ds)
  then show ?case by (simp add: all_digits_def digit_char_digit)
qed

lemma map_digit_val: "all_digits ds \<Longrightarrow> map (digit_val \<circ> digit_char) ds = ds"
  by (induction ds) (simp_all add: all_digits_def digit_char_digit)

lemma readDigits_text:
  "all_digits ds \<Longrightarrow> rest = [] \<or> \<not> is_digit (hd rest) \<Longrightarrow>
   readDigits (map digit_char ds @ rest) = (ds, rest)"
  by (simp add: readDigits_def takeWhile_digits map_digit_val)

lemma digits_form:
  "\<exists>ds. digits n = map digit_char ds \<and> all_digits ds \<and> ds \<noteq> [] \<and> number_of_digits ds = n"
proof (induction n rule: digits.induct)
  case (1 n)
  show ?case
  proof (cases "n < 10")
    case True
    then have "digits n = map digit_char [n]" "all_digits [n]" "number_of_digits [n] = n"
      by (simp_all add: digits.simps [of n] digit_char_def all_digits_def number_of_digits_def)
    then show ?thesis by blast
  next
    case False
    then obtain ds where ds: "digits (n div 10) = map digit_char ds" "all_digits ds"
      "number_of_digits ds = n div 10"
      using 1 by blast
    have "digits n = map digit_char (ds @ [n mod 10])"
      using False ds(1) by (simp add: digits.simps [of n] digit_char_def)
    moreover have "all_digits (ds @ [n mod 10])"
      using ds(2) by (simp add: all_digits_def)
    moreover have "number_of_digits (ds @ [n mod 10]) = n"
      using ds(3) by (simp add: number_of_digits_def)
    ultimately show ?thesis by blast
  qed
qed

lemma ends_number_digit: "ends_number rest \<Longrightarrow> rest = [] \<or> \<not> is_digit (hd rest)"
  by (cases rest) (simp_all add: ends_number_def)

lemma readExponent_text:
  assumes "ends_number rest"
  shows "readExponent (exponentText ex @ rest) = Some (ex, rest)"
proof (cases ex)
  case None
  then show ?thesis
    using assms by (cases rest) (simp_all add: exponentText_def readExponent_def ends_number_def)
next
  case (Some e)
  obtain ds where ds: "digits (nat \<bar>e\<bar>) = map digit_char ds" "all_digits ds" "ds \<noteq> []"
    "number_of_digits ds = nat \<bar>e\<bar>"
    using digits_form by blast
  have rd: "readDigits (map digit_char ds @ rest) = (ds, rest)"
    using readDigits_text [OF ds(2) ends_number_digit [OF assms]] .
  show ?thesis
    using rd ds(3,4) by (simp add: Some exponentText_def readExponent_def ds(1) Let_def)
qed

lemma readFraction_text:
  assumes "all_digits ds" and "rest = [] \<or> (\<not> is_digit (hd rest) \<and> hd rest \<noteq> CHR ''.'')"
  shows "readFraction (fractionText ds @ rest) = Some (ds, rest)"
proof (cases "ds = []")
  case True
  then show ?thesis
    using assms(2) by (cases rest) (simp_all add: fractionText_def readFraction_def)
next
  case False
  have "readDigits (map digit_char ds @ rest) = (ds, rest)"
    using readDigits_text [OF assms(1)] assms(2) by blast
  then show ?thesis
    using False by (simp add: fractionText_def readFraction_def)
qed

lemma exponentText_start:
  "exponentText ex @ rest = [] \<or>
     (\<not> is_digit (hd (exponentText ex @ rest)) \<and> hd (exponentText ex @ rest) \<noteq> CHR ''.'')"
  if "ends_number rest"
  using that
  by (cases ex; cases rest) (simp_all add: exponentText_def ends_number_def is_digit_def)

lemma fractionText_start:
  "fractionText ds @ t = [] \<or> \<not> is_digit (hd (fractionText ds @ t))"
  if "t = [] \<or> \<not> is_digit (hd t)"
  using that by (simp add: fractionText_def is_digit_def)

lemma readNumber_text:
  assumes "numeral_form x" and "ends_number rest"
  shows "readNumber (numberText x @ rest) = Some (x, rest)"
proof -
  let ?t3 = "exponentText (exponent x) @ rest"
  let ?t2 = "fractionText (frac_digits x) @ ?t3"
  let ?t1 = "map digit_char (int_digits x) @ ?t2"
  have wf: "all_digits (int_digits x)" "all_digits (frac_digits x)" "int_digits x \<noteq> []"
    "length (int_digits x) = 1 \<or> hd (int_digits x) \<noteq> 0"
    using assms(1) by (simp_all add: numeral_form_def)
  have s3: "?t3 = [] \<or> (\<not> is_digit (hd ?t3) \<and> hd ?t3 \<noteq> CHR ''.'')"
    using exponentText_start [OF assms(2)] .
  then have s2: "?t2 = [] \<or> \<not> is_digit (hd ?t2)"
    by (intro fractionText_start) blast
  have first: "is_digit (hd ?t1)" "?t1 \<noteq> []"
    using wf(1,3) by (cases "int_digits x"; simp add: all_digits_def digit_char_digit)+
  then have nominus: "hd ?t1 \<noteq> CHR ''-''"
    by (auto simp: is_digit_def)
  have sign: "(numberText x @ rest \<noteq> [] \<and> hd (numberText x @ rest) = CHR ''-'') = negative x"
    "(if negative x then tl (numberText x @ rest) else numberText x @ rest) = ?t1"
    using nominus first(2) by (auto simp: numberText_def)
  have r1: "readDigits ?t1 = (int_digits x, ?t2)"
    using readDigits_text [OF wf(1) s2] .
  have r2: "readFraction ?t2 = Some (frac_digits x, ?t3)"
    using readFraction_text [OF wf(2) s3] .
  have r3: "readExponent ?t3 = Some (exponent x, rest)"
    using readExponent_text [OF assms(2)] .
  show ?thesis
    unfolding readNumber_def Let_def sign r1
    using wf(3,4) by (auto simp: r2 r3)
qed

lemma char_eq_iff_code: "(c = d) = ((of_char c :: nat) = of_char d)"
  by (metis char_of_char)

lemma hexValue_hexDigit: "k < 16 \<Longrightarrow> hexValue (hexDigit k) = Some k"
  by (auto simp: hexValue_def hexDigit_def Let_def)

lemma hexValue_zero: "hexValue (CHR ''0'') = Some 0"
  by (simp add: hexValue_def)

lemma unicodeEscape_control:
  assumes "(of_char c :: nat) < 32"
  shows "unicodeEscape (CHR ''0'') (CHR ''0'') (hexDigit (of_char c div 16))
           (hexDigit (of_char c mod 16)) = Some c"
proof -
  let ?n = "of_char c :: nat"
  have "hexValue (hexDigit (?n div 16)) = Some (?n div 16)"
    using assms by (intro hexValue_hexDigit) simp
  moreover have "hexValue (hexDigit (?n mod 16)) = Some (?n mod 16)"
    by (intro hexValue_hexDigit) simp
  moreover have "?n < 256" using assms by simp
  ultimately show ?thesis
    by (simp add: unicodeEscape_def hexValue_zero Let_def)
qed

lemma readChars_escape:
  "readChars (escapeChar c @ t) = consChar c (readChars t)"
proof -
  let ?n = "of_char c :: nat"
  have c: "c = char_of ?n" by simp
  consider "?n = 8" | "?n = 9" | "?n = 10" | "?n = 12" | "?n = 13" | "?n = 34" | "?n = 92"
    | "?n < 32" "?n \<notin> {8, 9, 10, 12, 13}" | "?n \<ge> 32" "?n \<noteq> 34" "?n \<noteq> 92"
    by force
  then show ?thesis
  proof cases
    case 1
    then have "escapeChar c = [CHR 0x5C, CHR ''b'']" "char_of (8::nat) = c"
      using c by (simp_all add: escapeChar_def)
    then show ?thesis by (simp add: simpleEscape_def consChar_def split: option.splits)
  next
    case 2
    then have "escapeChar c = [CHR 0x5C, CHR ''t'']" "char_of (9::nat) = c"
      using c by (simp_all add: escapeChar_def)
    then show ?thesis by (simp add: simpleEscape_def consChar_def split: option.splits)
  next
    case 3
    then have "escapeChar c = [CHR 0x5C, CHR ''n'']" "char_of (10::nat) = c"
      using c by (simp_all add: escapeChar_def)
    then show ?thesis by (simp add: simpleEscape_def consChar_def split: option.splits)
  next
    case 4
    then have "escapeChar c = [CHR 0x5C, CHR ''f'']" "char_of (12::nat) = c"
      using c by (simp_all add: escapeChar_def)
    then show ?thesis by (simp add: simpleEscape_def consChar_def split: option.splits)
  next
    case 5
    then have "escapeChar c = [CHR 0x5C, CHR ''r'']" "char_of (13::nat) = c"
      using c by (simp_all add: escapeChar_def)
    then show ?thesis by (simp add: simpleEscape_def consChar_def split: option.splits)
  next
    case 6
    then have "c = CHR 0x22"
      by (simp add: char_eq_iff_code)
    then show ?thesis
      by (simp add: escapeChar_def simpleEscape_def consChar_def split: option.splits)
  next
    case 7
    then have "c = CHR 0x5C"
      by (simp add: char_eq_iff_code)
    then show ?thesis
      by (simp add: escapeChar_def simpleEscape_def consChar_def split: option.splits)
  next
    case 8
    then have "escapeChar c =
        [CHR 0x5C, CHR ''u'', CHR ''0'', CHR ''0'', hexDigit (?n div 16), hexDigit (?n mod 16)]"
      by (simp add: escapeChar_def Let_def)
    then show ?thesis
      using unicodeEscape_control [OF 8(1)]
      by (simp add: consChar_def split: option.splits)
  next
    case 9
    then have "escapeChar c = [c]" "c \<noteq> CHR 0x22" "c \<noteq> CHR 0x5C" "\<not> ?n < 32"
      by (auto simp: escapeChar_def Let_def char_eq_iff_code)
    then show ?thesis by (simp add: consChar_def split: option.splits)
  qed
qed

lemma readChars_text:
  "readChars (concat (map escapeChar s) @ CHR 0x22 # rest) = Some (s, rest)"
  by (induction s) (simp_all add: readChars_escape consChar_def)

lemma readString_text: "readString (stringText s @ rest) = Some (s, rest)"
  by (simp add: readString_def stringText_def readChars_text)

lemma expect_text: "expect p (p @ t) = Some t"
  by (simp add: expect_def)

lemma ends_number_lit:
  "ends_number (nameKey @ t)" "ends_number ('','' @ t)" "ends_number (zoomKey @ t)"
  "ends_number (''}'' @ t)"
  by (simp_all add: ends_number_def is_digit_def nameKey_def zoomKey_def)

lemma readBookmark_text:
  assumes "numeral_forms b"
  shows "readBookmark (bookmarkText b @ rest) = Some (b, rest)"
proof -
  have wf: "numeral_form (bm_id b)" "numeral_form (fst (center b))"
    "numeral_form (snd (center b))" "numeral_form (zoom b)"
    using assms by (simp_all add: numeral_forms_def)
  have b: "\<lparr> bm_id = bm_id b, bm_name = bm_name b, center = (fst (center b), snd (center b)),
            zoom = zoom b \<rparr> = b"
    by simp
  show ?thesis
    unfolding readBookmark_def bookmarkText_def append_assoc
    by (simp only: expect_text Option.bind.simps readNumber_text [OF wf(1) ends_number_lit(1)]
        readNumber_text [OF wf(2) ends_number_lit(2)]
        readNumber_text [OF wf(3) ends_number_lit(3)]
        readNumber_text [OF wf(4) ends_number_lit(4)] readString_text prod.case b)
qed

lemma bookmarkText_first: "\<exists>t. bookmarkText b = CHR ''{'' # t"
  by (simp add: bookmarkText_def idKey_def)

lemma readItems_text:
  "list_all numeral_forms (b # bs) \<Longrightarrow> length bs < fuel \<Longrightarrow>
   readItems fuel (separated (map bookmarkText (b # bs)) @ '']'' @ rest) = Some (b # bs, rest)"
proof (induction bs arbitrary: b fuel)
  case Nil
  then obtain n where "fuel = Suc n" by (cases fuel) auto
  then show ?case using Nil by (simp add: readBookmark_text)
next
  case (Cons c bs)
  then obtain n where n: "fuel = Suc n" by (cases fuel) auto
  have "readItems n (separated (map bookmarkText (c # bs)) @ '']'' @ rest) = Some (c # bs, rest)"
    using Cons.prems n by (intro Cons.IH) simp_all
  then show ?case using Cons.prems n by (simp add: readBookmark_text)
qed

lemma separated_length: "length bs \<le> length (separated (map bookmarkText bs))"
proof (induction bs rule: induct_list012)
  case 1
  show ?case by simp
next
  case (2 b)
  show ?case using bookmarkText_first [of b] by auto
next
  case (3 b c bs)
  then show ?case using bookmarkText_first [of b] by auto
qed

lemma JSON_round_trip:
  assumes "list_all numeral_forms bs"
  shows "JSON_parse (JSON_stringify bs) = Some bs"
proof (cases bs)
  case Nil
  then show ?thesis by (simp add: JSON_parse_def JSON_stringify_def)
next
  case (Cons b bs')
  obtain t where t: "bookmarkText b = CHR ''{'' # t"
    using bookmarkText_first by blast
  let ?body = "separated (map bookmarkText (b # bs')) @ '']''"
  have first: "\<exists>u. ?body = CHR ''{'' # u"
    using t by (cases bs') simp_all
  then have ne: "?body \<noteq> '']''" by auto
  have "length bs' < length ?body"
    using separated_length [of "b # bs'"] by simp
  then have "readItems (length ?body) (separated (map bookmarkText (b # bs')) @ '']'' @ []) =
               Some (b # bs', [])"
    using assms Cons by (intro readItems_text) simp_all
  then show ?thesis
    using ne by (simp add: JSON_parse_def JSON_stringify_def Cons)
qed

lemma JSON_stringify_nonempty: "JSON_stringify bs \<noteq> []"
  by (simp add: JSON_stringify_def)

subsection \<open>Saving and reloading\<close>

text \<open>
  C8.  A bookmark saved under a name that is not blank, with the map's center and zoom, is
  appended to the list, and the list is serialised and written to the storage; when the
  widget is mounted again on that storage, the stored text parses to the saved list, which
  becomes the widget's list: it holds an entry with the same name (the trimmed input),
  center and zoom, and the storage holds the same text again.  The numbers are finite
  numbers, given by their numerals.
\<close>

theorem bookmark_round_trip:
  assumes "trim (newBookmarkName st) \<noteq> []"
    and "numeral_form now" and "numeral_form (fst c)" and "numeral_form (snd c)"
    and "numeral_form z"
    and "list_all numeral_forms (bookmarks st)"
    and "st' = fst (pressSave now c z (st, ls))"
    and "ls' = snd (pressSave now c z (st, ls))"
  shows "bookmarks st' =
           bookmarks st @ [\<lparr> bm_id = now, bm_name = trim (newBookmarkName st), center = c,
                             zoom = z \<rparr>] \<and>
         ls' ''mapBookmarks'' = Some (JSON_stringify (bookmarks st')) \<and>
         loadEffect ls' = Some (bookmarks st') \<and>
         bookmarks (fst (mountWidget ls')) = bookmarks st' \<and>
         \<lparr> bm_id = now, bm_name = trim (newBookmarkName st), center = c, zoom = z \<rparr>
           \<in> set (bookmarks (fst (mountWidget ls'))) \<and>
         snd (mountWidget ls') ''mapBookmarks'' = Some (JSON_stringify (bookmarks st'))"
proof -
  let ?bm = "\<lparr> bm_id = now, bm_name = trim (newBookmarkName st), center = c, zoom = z \<rparr>"
  have bs: "bookmarks st' = bookmarks st @ [?bm]"
    using assms(1) by (simp add: assms(7) pressSave_def saveCurrentViewAsBookmark_def Let_def)
  have stored: "ls' ''mapBookmarks'' = Some (JSON_stringify (bookmarks st'))"
    using assms(1)
    by (simp add: assms(7,8) pressSave_def saveCurrentViewAsBookmark_def Let_def saveEffect_def)
  have "numeral_forms ?bm"
    using assms(2-5) by (simp add: numeral_forms_def)
  then have "list_all numeral_forms (bookmarks st')"
    using assms(6) by (simp add: bs)
  then have rt: "JSON_parse (JSON_stringify (bookmarks st')) = Some (bookmarks st')"
    by (rule JSON_round_trip)
  have loaded: "loadEffect ls' = Some (bookmarks st')"
    using stored rt by (simp add: loadEffect_def JSON_stringify_nonempty)
  have m: "bookmarks (fst (mountWidget ls')) = bookmarks st'"
    and s: "snd (mountWidget ls') ''mapBookmarks'' = Some (JSON_stringify (bookmarks st'))"
    by (simp_all add: mountWidget_def Let_def loaded saveEffect_def)
  show ?thesis using bs stored loaded m s by simp
qed

text \<open>
  The current view is saved as \<open>Home\<close> in an empty widget and the widget is mounted again.
\<close>

theorem bookmark_round_trip_witness:
  "trim (newBookmarkName freshWidget) = ''Home'' \<and>
   snd (pressSave exampleNow (exampleLat, exampleLng) exampleZoom (freshWidget, Map.empty))
     ''mapBookmarks'' = Some exampleText \<and>
   bookmarks (fst (mountWidget
      (snd (pressSave exampleNow (exampleLat, exampleLng) exampleZoom
              (freshWidget, Map.empty))))) = [exampleBookmark]"
proof -
  let ?p = "pressSave exampleNow (exampleLat, exampleLng) exampleZoom (freshWidget, Map.empty)"
  have t: "trim (newBookmarkName freshWidget) = ''Home''" by code_simp
  then have t': "trim (newBookmarkName freshWidget) \<noteq> []" by simp
  have n: "numeral_form exampleNow" "numeral_form (fst (exampleLat, exampleLng))"
    "numeral_form (snd (exampleLat, exampleLng))" "numeral_form exampleZoom"
    by code_simp+
  have l: "list_all numeral_forms (bookmarks freshWidget)" by code_simp
  have b: "bookmarks (fst ?p) = [exampleBookmark]" by code_simp
  have x: "JSON_stringify [exampleBookmark] = exampleText" by code_simp
  from bookmark_round_trip [OF t' n l refl refl]
  show ?thesis using t b x by simp
qed

end
